theory Spec2Isabelle
  imports Complex_Main
begin

section \<open>The weather script: shaping a forecast document into a table\<close>

text \<open>
  The script \<^verbatim>\<open>weather.py\<close> decodes a forecast document, flattens it into a pandas
  frame (\<^verbatim>\<open>flatten_hourly_data\<close>), splits the time stamps and reorders the columns
  (\<^verbatim>\<open>transform_data\<close>) and draws a chart (\<^verbatim>\<open>plot_temperature\<close>). The functions of the
  script are embedded below line by line; the pandas operations they call are given as
  functions on an explicit table type.
\<close>

subsection \<open>Data model\<close>

text \<open>
  A decoded JSON scalar, as \<^verbatim>\<open>json.loads\<close> gives it: \<^verbatim>\<open>None\<close>, a \<^verbatim>\<open>bool\<close>, an \<^verbatim>\<open>int\<close>
  (\<open>Integer\<close>, unbounded), a \<^verbatim>\<open>float\<close> (\<open>Num\<close>) or a \<^verbatim>\<open>str\<close>. A float is carried as the
  rational it denotes: the script never computes with it, and every finite double is a
  rational.
\<close>

datatype scalar = Null | Bool bool | Integer int | Num rat | Str string

datatype date = Date (year: nat) (month: nat) (day: nat)

datatype time_of_day = Time (hour: nat) (minute: nat) (second: nat)

datatype timestamp = Timestamp (ts_date: date) (ts_time: time_of_day)

text \<open>
  A cell of a frame: a value taken over from the document, the missing value \<^verbatim>\<open>NaN\<close> of a
  column of floats, or one of the three temporal values that \<^verbatim>\<open>pd.to_datetime\<close>,
  \<^verbatim>\<open>.dt.date\<close> and \<^verbatim>\<open>.dt.time\<close> produce.
\<close>

datatype cell =
  Value scalar | NaN | TimestampCell timestamp | DateCell date | TimeCell time_of_day

text \<open>
  The document \<^verbatim>\<open>data: Dict[str, Any]\<close>. A Python dict is an association list in
  insertion order. \<open>scalars\<close> holds the top-level entries whose values are scalars;
  \<open>hourly\<close> and \<open>hourly_units\<close> are the values under the keys of the same name,
  \<open>None\<close> when the key is absent: a mapping from field name to array, and a mapping from
  field name to scalar.
\<close>

record document =
  scalars :: "(string \<times> scalar) list"
  hourly :: "(string \<times> scalar list) list option"
  hourly_units :: "(string \<times> scalar) list option"

text \<open>
  A pandas frame with the default row index \<open>0 ..< nrows\<close>: the columns in order, each a
  label and its cells. Labels may repeat (pandas allows it, and \<^verbatim>\<open>rename\<close> can produce it).
\<close>

record table =
  nrows :: nat
  columns :: "(string \<times> cell list) list"

text \<open>
  The exceptions. \<open>KeyError\<close> carries the labels that were not found.
  \<open>EmptyDataError\<close> is the explicit error the specification asks for on a table
  without rows; no function of the script raises it. \<open>Unmodelled\<close> marks an input on
  which pandas leaves the fragment described here (a time column with an entry that is
  not a time stamp in the layout of the first entry and in the range of nanosecond
  stamps, a label that is not unique where one series is read); no statement below
  depends on what pandas does there.
\<close>

datatype error =
  KeyError "string list" | ValueError | IndexError | AttributeError | EmptyDataError | Unmodelled

definition and_then :: "error + 'a \<Rightarrow> ('a \<Rightarrow> error + 'b) \<Rightarrow> error + 'b" where
  "and_then r f = (case r of Inl e \<Rightarrow> Inl e | Inr x \<Rightarrow> f x)"

fun map_result :: "('a \<Rightarrow> error + 'b) \<Rightarrow> 'a list \<Rightarrow> error + 'b list" where
  "map_result f [] = Inr []"
| "map_result f (x # xs) =
     (case f x of Inl e \<Rightarrow> Inl e
      | Inr y \<Rightarrow> (case map_result f xs of Inl e \<Rightarrow> Inl e | Inr ys \<Rightarrow> Inr (y # ys)))"

subsection \<open>Frames: the pandas operations the script uses\<close>

definition names :: "table \<Rightarrow> string list" where
  "names t = map fst (columns t)"

text \<open>
  The entries a column of floats can take up: a float, an integer in the range of
  \<^verbatim>\<open>int64\<close>, and \<^verbatim>\<open>None\<close>.
\<close>

definition is_float :: "scalar \<Rightarrow> bool" where
  "is_float v = (case v of Num r \<Rightarrow> True | _ \<Rightarrow> False)"

definition is_int64 :: "scalar \<Rightarrow> bool" where
  "is_int64 v = (case v of Integer i \<Rightarrow> (- (2 ^ 63) \<le> i \<and> i < 2 ^ 63) | _ \<Rightarrow> False)"

definition numeric :: "scalar \<Rightarrow> bool" where
  "numeric v \<longleftrightarrow> v = Null \<or> is_float v \<or> is_int64 v"

text \<open>
  The double nearest to an integer, ties to the even significand, as Python converts an
  \<^verbatim>\<open>int\<close> to a \<^verbatim>\<open>float\<close>: an integer of more than 53 bits keeps its 53 leading bits, rounded.
  (Below \<open>2 ^ 1024\<close> in absolute value; beyond, the conversion overflows.)
\<close>

fun bit_length :: "int \<Rightarrow> nat" where
  "bit_length n = (if n \<le> 0 then 0 else Suc (bit_length (n div 2)))"

declare bit_length.simps [simp del]

definition nearest_double :: "int \<Rightarrow> rat" where
  "nearest_double i =
     (let a = \<bar>i\<bar>;
          e = bit_length a - 53;
          q = a div 2 ^ e;
          r = a mod 2 ^ e;
          m = (if 2 ^ e < 2 * r \<or> (2 * r = 2 ^ e \<and> odd q) then q + 1 else q)
      in of_int (sgn i * (m * 2 ^ e)))"

text \<open>
  The column pandas makes of an array (the inference of the element type in
  \<^verbatim>\<open>pd.DataFrame\<close>). An array of floats, \<^verbatim>\<open>int64\<close> integers and \<^verbatim>\<open>None\<close> with at least one
  number and with a float or a \<^verbatim>\<open>None\<close> becomes a column of floats: every integer is
  converted and every \<^verbatim>\<open>None\<close> becomes \<^verbatim>\<open>NaN\<close>. Every other array keeps its entries:
  \<^verbatim>\<open>int64\<close> integers only, \<^verbatim>\<open>None\<close> only, booleans only, strings only, or a mixture with a
  boolean or a string in it. Two kinds of array are not followed and are taken over as
  they are: one with an integer outside the range of \<^verbatim>\<open>int64\<close> (pandas decides by the
  order of the entries there), and one of strings and \<^verbatim>\<open>None\<close> (pandas 2 keeps the
  \<^verbatim>\<open>None\<close>, pandas 3 makes it \<^verbatim>\<open>NaN\<close>). No statement below is about the cells of such an
  array.
\<close>

definition float_column :: "scalar list \<Rightarrow> bool" where
  "float_column xs \<longleftrightarrow>
     list_all numeric xs \<and> list_ex (\<lambda>v. is_float v \<or> is_int64 v) xs \<and>
     list_ex (\<lambda>v. v = Null \<or> is_float v) xs"

definition to_float64 :: "scalar \<Rightarrow> cell" where
  "to_float64 v =
     (case v of Null \<Rightarrow> NaN | Integer i \<Rightarrow> Value (Num (nearest_double i)) | _ \<Rightarrow> Value v)"

definition as_column :: "scalar list \<Rightarrow> cell list" where
  "as_column xs = (if float_column xs then map to_float64 xs else map Value xs)"

text \<open>
  \<^verbatim>\<open>pd.DataFrame(d)\<close> for a dict of arrays: one column per key, in the dict's order. Arrays
  of different lengths raise \<^verbatim>\<open>ValueError\<close>; the empty dict gives the frame with no column
  and no row.
\<close>

definition DataFrame :: "(string \<times> scalar list) list \<Rightarrow> error + table" where
  "DataFrame d =
     (case d of
        [] \<Rightarrow> Inr \<lparr>nrows = 0, columns = []\<rparr>
      | (k, xs) # rest \<Rightarrow>
          if list_all (\<lambda>(k', ys). length ys = length xs) rest
          then Inr \<lparr>nrows = length xs, columns = map (\<lambda>(k', ys). (k', as_column ys)) d\<rparr>
          else Inl ValueError)"

text \<open>
  \<^verbatim>\<open>df[key] = series\<close>: an existing label keeps its position and takes the new cells, a
  new label is appended.
\<close>

definition setitem :: "table \<Rightarrow> string \<Rightarrow> cell list \<Rightarrow> table" where
  "setitem df key cells =
     (if key \<in> set (names df)
      then df\<lparr>columns := map (\<lambda>(k, old). if k = key then (k, cells) else (k, old)) (columns df)\<rparr>
      else df\<lparr>columns := columns df @ [(key, cells)]\<rparr>)"

text \<open>\<^verbatim>\<open>df[key] = value\<close> for a scalar: the value is repeated on every row.\<close>

definition setitem_scalar :: "table \<Rightarrow> string \<Rightarrow> scalar \<Rightarrow> table" where
  "setitem_scalar df key v = setitem df key (replicate (nrows df) (Value v))"

text \<open>
  \<^verbatim>\<open>df[key]\<close>: the series under a label, \<^verbatim>\<open>KeyError\<close> when there is none. Under a label
  that occurs twice pandas returns a frame, not a series.
\<close>

definition getitem :: "table \<Rightarrow> string \<Rightarrow> error + cell list" where
  "getitem df key =
     (case filter (\<lambda>c. fst c = key) (columns df) of
        [] \<Rightarrow> Inl (KeyError [key])
      | [c] \<Rightarrow> Inr (snd c)
      | _ \<Rightarrow> Inl Unmodelled)"

text \<open>
  \<^verbatim>\<open>df[labels]\<close> for a list of labels: for each label in turn, every column that carries
  it; \<^verbatim>\<open>KeyError\<close> with the labels not found when there are any.
\<close>

definition getitem_list :: "table \<Rightarrow> string list \<Rightarrow> error + table" where
  "getitem_list df labels =
     (case filter (\<lambda>l. l \<notin> set (names df)) labels of
        [] \<Rightarrow> Inr (df\<lparr>columns := concat (map (\<lambda>l. filter (\<lambda>c. fst c = l) (columns df)) labels)\<rparr>)
      | missing \<Rightarrow> Inl (KeyError missing))"

text \<open>
  \<^verbatim>\<open>df.rename(columns=m, inplace=True)\<close>: every label that is a key of \<open>m\<close> is replaced,
  the other labels stay (\<^verbatim>\<open>errors='ignore'\<close> is the default).
\<close>

definition rename :: "(string \<times> string) list \<Rightarrow> table \<Rightarrow> table" where
  "rename m df =
     df\<lparr>columns := map (\<lambda>(k, cells). (case map_of m k of None \<Rightarrow> k | Some k' \<Rightarrow> k', cells)) (columns df)\<rparr>"

subsection \<open>Time stamps: parsing and printing\<close>

definition digit :: "char \<Rightarrow> nat option" where
  "digit c = (let n = (of_char c :: nat) in if 48 \<le> n \<and> n \<le> 57 then Some (n - 48) else None)"

definition digit_char :: "nat \<Rightarrow> char" where
  "digit_char n = char_of (48 + n)"

definition num2 :: "char \<Rightarrow> char \<Rightarrow> nat option" where
  "num2 a b = (case (digit a, digit b) of (Some x, Some y) \<Rightarrow> Some (10 * x + y) | _ \<Rightarrow> None)"

definition num4 :: "char \<Rightarrow> char \<Rightarrow> char \<Rightarrow> char \<Rightarrow> nat option" where
  "num4 a b c d =
     (case (num2 a b, num2 c d) of (Some x, Some y) \<Rightarrow> Some (100 * x + y) | _ \<Rightarrow> None)"

definition leap_year :: "nat \<Rightarrow> bool" where
  "leap_year y \<longleftrightarrow> y mod 4 = 0 \<and> (y mod 100 \<noteq> 0 \<or> y mod 400 = 0)"

definition days_in_month :: "nat \<Rightarrow> nat \<Rightarrow> nat" where
  "days_in_month y m =
     (if m = 2 then (if leap_year y then 29 else 28)
      else if m \<in> {4, 6, 9, 11} then 30 else 31)"

definition valid_date :: "date \<Rightarrow> bool" where
  "valid_date d \<longleftrightarrow>
     1 \<le> year d \<and> year d \<le> 9999 \<and> 1 \<le> month d \<and> month d \<le> 12 \<and>
     1 \<le> day d \<and> day d \<le> days_in_month (year d) (month d)"

definition valid_time :: "time_of_day \<Rightarrow> bool" where
  "valid_time t \<longleftrightarrow> hour t \<le> 23 \<and> minute t \<le> 59 \<and> second t \<le> 59"

text \<open>The date part \<^verbatim>\<open>YYYY-MM-DD\<close>.\<close>

definition parse_date :: "string \<Rightarrow> date option" where
  "parse_date s =
     (case s of
        [y1, y2, y3, y4, c1, m1, m2, c2, d1, d2] \<Rightarrow>
          (if c1 = CHR ''-'' \<and> c2 = CHR ''-'' then
             (case (num4 y1 y2 y3 y4, num2 m1 m2, num2 d1 d2) of
                (Some y, Some m, Some d) \<Rightarrow>
                  if valid_date (Date y m d) then Some (Date y m d) else None
              | _ \<Rightarrow> None)
           else None)
      | _ \<Rightarrow> None)"

text \<open>The time part, \<^verbatim>\<open>HH:MM\<close> or \<^verbatim>\<open>HH:MM:SS\<close>.\<close>

definition parse_time :: "bool \<Rightarrow> string \<Rightarrow> time_of_day option" where
  "parse_time with_seconds s =
     (if with_seconds then
        (case s of
           [h1, h2, c1, m1, m2, c2, s1, s2] \<Rightarrow>
             (if c1 = CHR '':'' \<and> c2 = CHR '':'' then
                (case (num2 h1 h2, num2 m1 m2, num2 s1 s2) of
                   (Some h, Some m, Some sec) \<Rightarrow>
                     if valid_time (Time h m sec) then Some (Time h m sec) else None
                 | _ \<Rightarrow> None)
              else None)
         | _ \<Rightarrow> None)
      else
        (case s of
           [h1, h2, c1, m1, m2] \<Rightarrow>
             (if c1 = CHR '':'' then
                (case (num2 h1 h2, num2 m1 m2) of
                   (Some h, Some m) \<Rightarrow>
                     if valid_time (Time h m 0) then Some (Time h m 0) else None
                 | _ \<Rightarrow> None)
              else None)
         | _ \<Rightarrow> None))"

text \<open>
  An ISO-8601 layout with date and time: the separator between them (\<^verbatim>\<open>T\<close> or a blank)
  and whether seconds are written.
\<close>

datatype iso_format = IsoFormat (separator: char) (with_seconds: bool)

definition parse_with :: "iso_format \<Rightarrow> string \<Rightarrow> timestamp option" where
  "parse_with f s =
     (if length s = (if with_seconds f then 19 else 16) \<and> s ! 10 = separator f then
        (case (parse_date (take 10 s), parse_time (with_seconds f) (drop 11 s)) of
           (Some d, Some t) \<Rightarrow> Some (Timestamp d t)
         | _ \<Rightarrow> None)
      else None)"

text \<open>
  The layout of a string, when it has one of the four: digits and punctuation in the
  places of \<^verbatim>\<open>YYYY-MM-DD?HH:MM\<close> or \<^verbatim>\<open>YYYY-MM-DD?HH:MM:SS\<close>.
\<close>

definition iso_shape :: "string \<Rightarrow> bool" where
  "iso_shape s \<longleftrightarrow>
     (length s = 16 \<or> length s = 19) \<and>
     list_all (\<lambda>i. digit (s ! i) \<noteq> None)
       (filter (\<lambda>i. i < length s) [0, 1, 2, 3, 5, 6, 8, 9, 11, 12, 14, 15, 17, 18]) \<and>
     s ! 4 = CHR ''-'' \<and> s ! 7 = CHR ''-'' \<and> s ! 13 = CHR '':'' \<and>
     (length s = 19 \<longrightarrow> s ! 16 = CHR '':'')"

definition guess_format :: "string \<Rightarrow> iso_format option" where
  "guess_format s =
     (if iso_shape s \<and> (s ! 10 = CHR ''T'' \<or> s ! 10 = CHR '' '')
      then Some (IsoFormat (s ! 10) (length s = 19)) else None)"

text \<open>
  The range of \<^verbatim>\<open>datetime64[ns]\<close>, in whole seconds: from 1677-09-21 00:12:44 to
  2262-04-11 23:47:16.
\<close>

fun lex_le :: "nat list \<Rightarrow> nat list \<Rightarrow> bool" where
  "lex_le [] ys = True"
| "lex_le (x # xs) [] = False"
| "lex_le (x # xs) (y # ys) = (x < y \<or> (x = y \<and> lex_le xs ys))"

definition ts_key :: "timestamp \<Rightarrow> nat list" where
  "ts_key ts =
     [year (ts_date ts), month (ts_date ts), day (ts_date ts),
      hour (ts_time ts), minute (ts_time ts), second (ts_time ts)]"

definition in_bounds :: "timestamp \<Rightarrow> bool" where
  "in_bounds ts \<longleftrightarrow>
     lex_le [1677, 9, 21, 0, 12, 44] (ts_key ts) \<and> lex_le (ts_key ts) [2262, 4, 11, 23, 47, 16]"

text \<open>
  One entry of the column handed to \<^verbatim>\<open>pd.to_datetime\<close>, read in the layout of the column.
  An entry that is not written in that layout, names no calendar day or time, or lies
  outside the nanosecond range is not followed: pandas reads some such entries (a month
  without its leading zero, the empty string) and raises on others, and what it does
  beyond the nanosecond range depends on its version.
\<close>

definition parse_cell :: "iso_format \<Rightarrow> cell \<Rightarrow> error + cell" where
  "parse_cell f c =
     (case c of
        Value (Str s) \<Rightarrow>
          (case parse_with f s of
             None \<Rightarrow> Inl Unmodelled
           | Some ts \<Rightarrow> if in_bounds ts then Inr (TimestampCell ts) else Inl Unmodelled)
      | _ \<Rightarrow> Inl Unmodelled)"

text \<open>
  \<^verbatim>\<open>pd.to_datetime(series)\<close> on a series of strings: the layout is taken from the first
  entry and every entry is read in it. An empty series gives an empty series.
\<close>

definition to_datetime :: "cell list \<Rightarrow> error + cell list" where
  "to_datetime xs =
     (case xs of
        [] \<Rightarrow> Inr []
      | Value (Str s) # _ \<Rightarrow>
          (case guess_format s of
             None \<Rightarrow> Inl Unmodelled
           | Some f \<Rightarrow> map_result (parse_cell f) xs)
      | _ \<Rightarrow> Inl Unmodelled)"

text \<open>
  The accessors \<^verbatim>\<open>.dt.time\<close> and \<^verbatim>\<open>.dt.date\<close> of a series of time stamps; on other
  values \<^verbatim>\<open>.dt\<close> raises \<^verbatim>\<open>AttributeError\<close>.
\<close>

definition dt_time :: "cell list \<Rightarrow> error + cell list" where
  "dt_time xs =
     map_result (\<lambda>c. case c of TimestampCell ts \<Rightarrow> Inr (TimeCell (ts_time ts))
                              | _ \<Rightarrow> Inl AttributeError) xs"

definition dt_date :: "cell list \<Rightarrow> error + cell list" where
  "dt_date xs =
     map_result (\<lambda>c. case c of TimestampCell ts \<Rightarrow> Inr (DateCell (ts_date ts))
                              | _ \<Rightarrow> Inl AttributeError) xs"

text \<open>Python's \<^verbatim>\<open>str\<close> of a date and of a time with no fraction of a second.\<close>

definition pad2 :: "nat \<Rightarrow> string" where
  "pad2 n = [digit_char (n div 10 mod 10), digit_char (n mod 10)]"

definition pad4 :: "nat \<Rightarrow> string" where
  "pad4 n = pad2 (n div 100) @ pad2 (n mod 100)"

definition date_str :: "date \<Rightarrow> string" where
  "date_str d = pad4 (year d) @ ''-'' @ pad2 (month d) @ ''-'' @ pad2 (day d)"

definition time_str :: "time_of_day \<Rightarrow> string" where
  "time_str t = pad2 (hour t) @ '':'' @ pad2 (minute t) @ '':'' @ pad2 (second t)"

subsection \<open>The script\<close>

text \<open>
  \<^verbatim>\<open>flatten_hourly_data\<close> (lines 29 to 50): the frame of the hourly arrays, then one
  column per top-level entry other than the two nested ones, then one column
  \<^verbatim>\<open>key + "_unit"\<close> per unit.
\<close>

definition flatten_hourly_data :: "document \<Rightarrow> error + table" where
  "flatten_hourly_data data =
     (case hourly data of
        None \<Rightarrow> Inl (KeyError [''hourly''])
      | Some h \<Rightarrow>
          and_then (DataFrame h) (\<lambda>hourly_df.
            let metadata = filter (\<lambda>(k, v). k \<notin> set [''hourly'', ''hourly_units'']) (scalars data);
                hourly_df = foldl (\<lambda>df (key, value). setitem_scalar df key value) hourly_df metadata
            in (case hourly_units data of
                  None \<Rightarrow> Inl (KeyError [''hourly_units''])
                | Some units \<Rightarrow>
                    Inr (foldl (\<lambda>df (key, unit). setitem_scalar df (key @ ''_unit'') unit)
                           hourly_df units))))"

definition ordered_columns :: "string list" where
  "ordered_columns =
     [''time'', ''hour'', ''temperature'', ''latitude'', ''longitude'', ''generationtime_ms'',
      ''utc_offset_seconds'', ''timezone'', ''timezone_abbreviation'', ''elevation'',
      ''time_unit'', ''temperature_unit'']"

text \<open>\<^verbatim>\<open>transform_data\<close> (lines 53 to 82).\<close>

definition transform_data :: "document \<Rightarrow> error + table" where
  "transform_data data =
     and_then (flatten_hourly_data data) (\<lambda>df.
     and_then (getitem df ''time'') (\<lambda>raw.
     and_then (to_datetime raw) (\<lambda>stamps.
     let df = setitem df ''time'' stamps in
     and_then (getitem df ''time'') (\<lambda>col.
     and_then (dt_time col) (\<lambda>times.
     let df = setitem df ''hour'' times in
     and_then (getitem df ''time'') (\<lambda>col.
     and_then (dt_date col) (\<lambda>dates.
     let df = setitem df ''time'' dates;
         df = rename [(''temperature_2m'', ''temperature''),
                      (''temperature_2m_unit'', ''temperature_unit'')] df
     in getitem_list df ordered_columns)))))))"

text \<open>
  Python's \<^verbatim>\<open>str\<close> of a cell, as \<^verbatim>\<open>astype(str)\<close> and an f-string apply it. The text of
  a number or of \<^verbatim>\<open>None\<close> is not modelled.
\<close>

definition astype_str :: "cell \<Rightarrow> error + string" where
  "astype_str c =
     (case c of
        DateCell d \<Rightarrow> Inr (date_str d)
      | TimeCell t \<Rightarrow> Inr (time_str t)
      | TimestampCell ts \<Rightarrow> Inr (date_str (ts_date ts) @ '' '' @ time_str (ts_time ts))
      | Value (Str s) \<Rightarrow> Inr s
      | Value (Bool b) \<Rightarrow> Inr (if b then ''True'' else ''False'')
      | NaN \<Rightarrow> Inr ''nan''
      | Value _ \<Rightarrow> Inl Unmodelled)"

text \<open>
  Line 94 of \<^verbatim>\<open>plot_temperature\<close>: the texts of the \<^verbatim>\<open>time\<close> and \<^verbatim>\<open>hour\<close> columns,
  joined row by row with a blank and read again by \<^verbatim>\<open>pd.to_datetime\<close>.
\<close>

definition datetime_column :: "table \<Rightarrow> error + cell list" where
  "datetime_column df =
     and_then (getitem df ''time'') (\<lambda>dates.
     and_then (map_result astype_str dates) (\<lambda>ds.
     and_then (getitem df ''hour'') (\<lambda>hours.
     and_then (map_result astype_str hours) (\<lambda>hs.
     to_datetime (map (\<lambda>(a, b). Value (Str (a @ '' '' @ b))) (zip ds hs))))))"

text \<open>
  What \<^verbatim>\<open>plot_temperature\<close> hands to matplotlib: the abscissae, one line of ordinates per
  column under the label \<^verbatim>\<open>temperature\<close>, and the label of the y axis.
\<close>

record chart =
  x_data :: "cell list"
  y_data :: "cell list list"
  y_label :: string

text \<open>Python's \<^verbatim>\<open>s[:n]\<close>; a negative \<open>n\<close> counts from the end.\<close>

definition slice_to :: "int \<Rightarrow> 'a list \<Rightarrow> 'a list" where
  "slice_to n s = (if 0 \<le> n then take (nat n) s else take (length s - nat (- n)) s)"

text \<open>
  \<^verbatim>\<open>df[key]\<close> as pandas gives it whether or not the label is unique: the columns under
  the label, \<^verbatim>\<open>KeyError\<close> when there is none.
\<close>

definition getitem_all :: "table \<Rightarrow> string \<Rightarrow> error + cell list list" where
  "getitem_all df key =
     (case map snd (filter (\<lambda>c. fst c = key) (columns df)) of
        [] \<Rightarrow> Inl (KeyError [key])
      | cols \<Rightarrow> Inr cols)"

text \<open>
  \<^verbatim>\<open>.iloc[0]\<close> of what \<^verbatim>\<open>df[key]\<close> returned, as text in the f-string: the first cell of a
  series, \<^verbatim>\<open>IndexError\<close> when there is no row. The text of the first row of a frame is
  not modelled.
\<close>

definition iloc0 :: "table \<Rightarrow> cell list list \<Rightarrow> error + string" where
  "iloc0 df cols =
     (case cols of
        [c] \<Rightarrow> (case c of [] \<Rightarrow> Inl IndexError | x # _ \<Rightarrow> astype_str x)
      | _ \<Rightarrow> if nrows df = 0 then Inl IndexError else Inl Unmodelled)"

text \<open>
  \<^verbatim>\<open>plot_temperature\<close> (lines 85 to 106). The frame is copied first, so the caller's frame
  keeps its columns; the calls that only draw are left out.
\<close>

definition plot_temperature :: "table \<Rightarrow> int \<Rightarrow> error + chart" where
  "plot_temperature df hours =
     and_then (datetime_column df) (\<lambda>stamps.
     let df = setitem df ''datetime'' stamps in
     and_then (getitem df ''datetime'') (\<lambda>x.
     and_then (getitem_all df ''temperature'') (\<lambda>y.
     and_then (getitem_all df ''temperature_unit'') (\<lambda>units.
     and_then (iloc0 df units) (\<lambda>unit.
     Inr \<lparr>x_data = slice_to hours x, y_data = map (slice_to hours) y,
          y_label = ''Temperature ('' @ unit @ '')''\<rparr>)))))"

subsection \<open>The script on a store of objects\<close>

text \<open>
  Python passes references. To say what a call leaves untouched, the objects are put in a
  store: a reference is a position in the list of objects, a new object goes to the end.
  A decoded document, with its nested mappings and arrays, is one object; a frame is
  another. \<^verbatim>\<open>pd.DataFrame(...)\<close> builds a new frame and copies the arrays into it;
  \<^verbatim>\<open>df[key] = ...\<close> and \<^verbatim>\<open>df.rename(..., inplace=True)\<close> change the frame they are called
  on; \<^verbatim>\<open>df[labels]\<close> builds a new frame.
\<close>

datatype obj = Document document | Frame table

type_synonym store = "obj list"

definition lookup :: "store \<Rightarrow> nat \<Rightarrow> obj option" where
  "lookup s r = (if r < length s then Some (s ! r) else None)"

definition new_object :: "store \<Rightarrow> obj \<Rightarrow> nat \<times> store" where
  "new_object s ob = (length s, s @ [ob])"

definition read_frame :: "store \<Rightarrow> nat \<Rightarrow> error + table" where
  "read_frame s r = (case lookup s r of Some (Frame t) \<Rightarrow> Inr t | _ \<Rightarrow> Inl Unmodelled)"

text \<open>A change in place of the frame behind a reference.\<close>

definition mutate :: "store \<Rightarrow> nat \<Rightarrow> (table \<Rightarrow> table) \<Rightarrow> store" where
  "mutate s r f = (case lookup s r of Some (Frame t) \<Rightarrow> s[r := Frame (f t)] | _ \<Rightarrow> s)"

text \<open>
  \<^verbatim>\<open>flatten_hourly_data\<close> on the store: \<open>data\<close> refers to the document, the result refers to
  the new frame. The document is read where the source reads it.
\<close>

definition flatten_hourly_data_st :: "store \<Rightarrow> nat \<Rightarrow> (error + nat) \<times> store" where
  "flatten_hourly_data_st s data =
     (case lookup s data of
        Some (Document d) \<Rightarrow>
          (case hourly d of
             None \<Rightarrow> (Inl (KeyError [''hourly'']), s)
           | Some h \<Rightarrow>
               (case DataFrame h of
                  Inl e \<Rightarrow> (Inl e, s)
                | Inr t \<Rightarrow>
                    let (hourly_df, s) = new_object s (Frame t) in
                    (case lookup s data of
                       Some (Document d) \<Rightarrow>
                         let metadata = filter (\<lambda>(k, v). k \<notin> set [''hourly'', ''hourly_units''])
                                          (scalars d);
                             s = foldl (\<lambda>s (key, value).
                                          mutate s hourly_df (\<lambda>df. setitem_scalar df key value))
                                   s metadata
                         in (case lookup s data of
                               Some (Document d) \<Rightarrow>
                                 (case hourly_units d of
                                    None \<Rightarrow> (Inl (KeyError [''hourly_units'']), s)
                                  | Some units \<Rightarrow>
                                      (Inr hourly_df,
                                       foldl (\<lambda>s (key, unit).
                                                mutate s hourly_df
                                                  (\<lambda>df. setitem_scalar df (key @ ''_unit'') unit))
                                         s units))
                             | _ \<Rightarrow> (Inl Unmodelled, s))
                     | _ \<Rightarrow> (Inl Unmodelled, s))))
      | _ \<Rightarrow> (Inl Unmodelled, s))"

text \<open>\<^verbatim>\<open>transform_data\<close> on the store; the result refers to the projected frame.\<close>

definition transform_data_st :: "store \<Rightarrow> nat \<Rightarrow> (error + nat) \<times> store" where
  "transform_data_st s data =
     (case flatten_hourly_data_st s data of
        (Inl e, s) \<Rightarrow> (Inl e, s)
      | (Inr df, s) \<Rightarrow>
          (case and_then (read_frame s df) (\<lambda>t. and_then (getitem t ''time'') to_datetime) of
             Inl e \<Rightarrow> (Inl e, s)
           | Inr stamps \<Rightarrow>
               let s = mutate s df (\<lambda>t. setitem t ''time'' stamps) in
               (case and_then (read_frame s df) (\<lambda>t. and_then (getitem t ''time'') dt_time) of
                  Inl e \<Rightarrow> (Inl e, s)
                | Inr hours \<Rightarrow>
                    let s = mutate s df (\<lambda>t. setitem t ''hour'' hours) in
                    (case and_then (read_frame s df)
                            (\<lambda>t. and_then (getitem t ''time'') dt_date) of
                       Inl e \<Rightarrow> (Inl e, s)
                     | Inr dates \<Rightarrow>
                         let s = mutate s df (\<lambda>t. setitem t ''time'' dates);
                             s = mutate s df
                                   (rename [(''temperature_2m'', ''temperature''),
                                            (''temperature_2m_unit'', ''temperature_unit'')])
                         in (case and_then (read_frame s df)
                                    (\<lambda>t. getitem_list t ordered_columns) of
                               Inl e \<Rightarrow> (Inl e, s)
                             | Inr out \<Rightarrow>
                                 let (r, s) = new_object s (Frame out) in (Inr r, s))))))"

text \<open>What the caller holds after a call: the exception, or the frame behind the result.\<close>

definition outcome :: "(error + nat) \<times> store \<Rightarrow> error + table" where
  "outcome res = (case res of (Inl e, s) \<Rightarrow> Inl e | (Inr r, s) \<Rightarrow> read_frame s r)"

text \<open>Every object of \<open>s\<close> is in \<open>s'\<close>, at its place and unchanged.\<close>

definition preserved :: "store \<Rightarrow> store \<Rightarrow> bool" where
  "preserved s s' \<longleftrightarrow> length s \<le> length s' \<and> (\<forall>r < length s. s' ! r = s ! r)"

subsection \<open>Valid responses\<close>

text \<open>
  The seven top-level scalars of a forecast response.
\<close>

definition scalar_fields :: "string list" where
  "scalar_fields =
     [''latitude'', ''longitude'', ''generationtime_ms'', ''utc_offset_seconds'',
      ''timezone'', ''timezone_abbreviation'', ''elevation'']"

text \<open>
  The documented layout of an entry of \<^verbatim>\<open>hourly.time\<close>, as in \<^verbatim>\<open>2024-01-01T00:00\<close>, the
  time stamp such an entry denotes, and the entries \<^verbatim>\<open>pd.to_datetime\<close> accepts in that layout.
\<close>

definition documented_format :: iso_format where
  "documented_format = IsoFormat (CHR ''T'') False"

definition read_time :: "scalar \<Rightarrow> timestamp option" where
  "read_time v = (case v of Str s \<Rightarrow> parse_with documented_format s | _ \<Rightarrow> None)"

definition documented_time :: "scalar \<Rightarrow> bool" where
  "documented_time v = (case read_time v of None \<Rightarrow> False | Some ts \<Rightarrow> in_bounds ts)"

text \<open>
  A well-formed document: the top-level scalars are the seven, each once; \<^verbatim>\<open>hourly\<close> and
  \<^verbatim>\<open>hourly_units\<close> are there, with distinct keys; \<^verbatim>\<open>hourly\<close> has the key \<^verbatim>\<open>time\<close>, its
  entries are in the documented layout and every array under \<^verbatim>\<open>hourly\<close> has their number;
  units are given for hourly fields only.
\<close>

definition well_formed :: "document \<Rightarrow> bool" where
  "well_formed d \<longleftrightarrow>
     (case (hourly d, hourly_units d) of
        (Some h, Some u) \<Rightarrow>
          distinct (map fst (scalars d)) \<and> set (map fst (scalars d)) = set scalar_fields \<and>
          distinct (map fst h) \<and> distinct (map fst u) \<and>
          (case map_of h ''time'' of
             None \<Rightarrow> False
           | Some tm \<Rightarrow>
               list_all documented_time tm \<and>
               list_all (\<lambda>(k, xs). length xs = length tm) h) \<and>
          set (map fst u) \<subseteq> set (map fst h)
      | _ \<Rightarrow> False)"

text \<open>
  A valid response is well formed, has the hourly field \<^verbatim>\<open>temperature_2m\<close> and gives
  the units of \<^verbatim>\<open>time\<close> and \<^verbatim>\<open>temperature_2m\<close>. Further hourly fields are allowed.
\<close>

definition valid_response :: "document \<Rightarrow> bool" where
  "valid_response d \<longleftrightarrow>
     well_formed d \<and>
     (case (hourly d, hourly_units d) of
        (Some h, Some u) \<Rightarrow>
          ''temperature_2m'' \<in> set (map fst h) \<and>
          ''time'' \<in> set (map fst u) \<and> ''temperature_2m'' \<in> set (map fst u)
      | _ \<Rightarrow> False)"

subsection \<open>Notions used in the proofs\<close>

text \<open>Every column of a frame has as many cells as the frame has rows.\<close>

definition uniform :: "table \<Rightarrow> bool" where
  "uniform df \<longleftrightarrow> (\<forall>c \<in> set (columns df). length (snd c) = nrows df)"

text \<open>The two loops of \<^verbatim>\<open>flatten_hourly_data\<close>, with the label of a key as a parameter.\<close>

definition broadcast_all :: "(string \<Rightarrow> string) \<Rightarrow> table \<Rightarrow> (string \<times> scalar) list \<Rightarrow> table" where
  "broadcast_all g df kvs = foldl (\<lambda>df (key, value). setitem_scalar df (g key) value) df kvs"

definition unit_label :: "string \<Rightarrow> string" where
  "unit_label key = key @ ''_unit''"

text \<open>
  What flattening a well-formed document gives: \<open>n\<close> rows, distinct labels (those of the
  hourly fields, the scalars and the units), the unit and scalar columns constant, the
  other columns those of the hourly arrays.
\<close>

definition flattened ::
  "document \<Rightarrow> (string \<times> scalar list) list \<Rightarrow> (string \<times> scalar) list \<Rightarrow> nat \<Rightarrow> table \<Rightarrow> bool" where
  "flattened d h u n df \<longleftrightarrow>
     nrows df = n \<and> distinct (names df) \<and> uniform df \<and>
     set (names df) = fst ` set h \<union> fst ` set (scalars d) \<union> unit_label ` fst ` set u \<and>
     (\<forall>k v. (k, v) \<in> set u \<longrightarrow> map_of (columns df) (unit_label k) = Some (replicate n (Value v))) \<and>
     (\<forall>k v. (k, v) \<in> set (scalars d) \<longrightarrow> k \<notin> range unit_label \<longrightarrow>
        map_of (columns df) k = Some (replicate n (Value v))) \<and>
     (\<forall>x. x \<notin> fst ` set (scalars d) \<longrightarrow> x \<notin> range unit_label \<longrightarrow>
        map_of (columns df) x = map_option as_column (map_of h x))"

text \<open>The columns that lines 66 to 68 make of the time entries, and the frame after these lines.\<close>

definition stamp_cells :: "scalar list \<Rightarrow> cell list" where
  "stamp_cells tm = map (\<lambda>v. TimestampCell (the (read_time v))) tm"

definition date_cells :: "scalar list \<Rightarrow> cell list" where
  "date_cells tm = map (\<lambda>v. DateCell (ts_date (the (read_time v)))) tm"

definition time_cells :: "scalar list \<Rightarrow> cell list" where
  "time_cells tm = map (\<lambda>v. TimeCell (ts_time (the (read_time v)))) tm"

definition split_time :: "table \<Rightarrow> scalar list \<Rightarrow> table" where
  "split_time df tm =
     setitem (setitem (setitem df ''time'' (stamp_cells tm)) ''hour'' (time_cells tm))
       ''time'' (date_cells tm)"

text \<open>The renaming of lines 71 to 74 on labels, the frame it gives, and the projection of line 82.\<close>

definition column_renames :: "(string \<times> string) list" where
  "column_renames =
     [(''temperature_2m'', ''temperature''), (''temperature_2m_unit'', ''temperature_unit'')]"

definition new_label :: "string \<Rightarrow> string" where
  "new_label k = (case map_of column_renames k of None \<Rightarrow> k | Some k' \<Rightarrow> k')"

definition shaped :: "table \<Rightarrow> scalar list \<Rightarrow> table" where
  "shaped df tm = rename column_renames (split_time df tm)"

definition project :: "table \<Rightarrow> string list \<Rightarrow> table" where
  "project df ls = df\<lparr>columns := concat (map (\<lambda>l. filter (\<lambda>c. fst c = l) (columns df)) ls)\<rparr>"

text \<open>The layout of the texts line 94 builds, as in \<^verbatim>\<open>2024-01-01 00:00:00\<close>, and such a text.\<close>

definition recombined_format :: iso_format where
  "recombined_format = IsoFormat (CHR '' '') True"

definition recombined :: "scalar \<Rightarrow> cell" where
  "recombined v =
     Value (Str (date_str (ts_date (the (read_time v))) @ '' '' @
                 time_str (ts_time (the (read_time v)))))"

subsection \<open>Documents of the examples\<close>

text \<open>
  The scenario of the specification: two hours, the seven scalars (the numbers as
  floats), both units (with \<^verbatim>\<open>degC\<close> for the degree sign).
\<close>

definition example_scalars :: "(string \<times> scalar) list" where
  "example_scalars =
     [(''latitude'', Num 4), (''longitude'', Num (- 10)), (''generationtime_ms'', Num (1 / 2)),
      (''utc_offset_seconds'', Num 0), (''timezone'', Str ''UTC''),
      (''timezone_abbreviation'', Str ''UTC''), (''elevation'', Num 0)]"

definition example_units :: "(string \<times> scalar) list" where
  "example_units = [(''time'', Str ''iso8601''), (''temperature_2m'', Str ''degC'')]"

definition example_hourly :: "(string \<times> scalar list) list" where
  "example_hourly =
     [(''time'', [Str ''2024-01-01T00:00'', Str ''2024-01-01T01:00'']),
      (''temperature_2m'', [Num (21 / 2), Num 11])]"

definition example_response :: document where
  "example_response =
     \<lparr>scalars = example_scalars, hourly = Some example_hourly, hourly_units = Some example_units\<rparr>"

text \<open>
  Valid responses with one more hourly field, whose name is a label of the result.
\<close>

definition unit_clash_response :: document where
  "unit_clash_response =
     \<lparr>scalars = example_scalars,
      hourly = Some [(''time'', [Str ''2024-01-01T00:00'']), (''temperature_2m'', [Num 11]),
                     (''temperature_unit'', [Str ''K''])],
      hourly_units = Some example_units\<rparr>"

definition label_clash_response :: document where
  "label_clash_response =
     \<lparr>scalars = example_scalars,
      hourly = Some [(''time'', [Str ''2024-01-01T00:00'']), (''temperature_2m'', [Num 11]),
                     (''temperature'', [Num 284])],
      hourly_units = Some example_units\<rparr>"

definition double_clash_response :: document where
  "double_clash_response =
     \<lparr>scalars = example_scalars,
      hourly = Some [(''time'', [Str ''2024-01-01T00:00'']), (''temperature'', [Num 284]),
                     (''temperature_2m'', [Num 11])],
      hourly_units = Some [(''time'', Str ''iso8601''), (''temperature'', Str ''K''),
                           (''temperature_2m'', Str ''degC'')]\<rparr>"

text \<open>A valid response in which the temperature of the first hour is missing.\<close>

definition missing_value_hourly :: "(string \<times> scalar list) list" where
  "missing_value_hourly =
     [(''time'', [Str ''2024-01-01T00:00'', Str ''2024-01-01T01:00'']),
      (''temperature_2m'', [Null, Num (3 / 2)])]"

definition missing_value_response :: document where
  "missing_value_response =
     \<lparr>scalars = example_scalars, hourly = Some missing_value_hourly,
      hourly_units = Some example_units\<rparr>"

text \<open>A valid response without hours, and the table it is turned into.\<close>

definition empty_response :: document where
  "empty_response =
     \<lparr>scalars = example_scalars,
      hourly = Some [(''time'', []), (''temperature_2m'', [])],
      hourly_units = Some example_units\<rparr>"

definition empty_table :: table where
  "empty_table =
     \<lparr>nrows = 0,
      columns =
        [(''time'', []), (''hour'', []), (''temperature'', []), (''latitude'', []),
         (''longitude'', []), (''generationtime_ms'', []), (''utc_offset_seconds'', []),
         (''timezone'', []), (''timezone_abbreviation'', []), (''elevation'', []),
         (''time_unit'', []), (''temperature_unit'', [])]\<rparr>"









text \<open>
  Documents without the unit of \<^verbatim>\<open>time\<close>: one with the two hourly fields, one with a
  further hourly field \<^verbatim>\<open>time_unit\<close>.
\<close>

definition no_time_unit_hourly :: "(string \<times> scalar list) list" where
  "no_time_unit_hourly = [(''time'', [Str ''2024-01-01T00:00'']), (''temperature_2m'', [Num 11])]"

definition no_time_unit_units :: "(string \<times> scalar) list" where
  "no_time_unit_units = [(''temperature_2m'', Str ''degC'')]"

definition no_time_unit_response :: document where
  "no_time_unit_response =
     \<lparr>scalars = example_scalars, hourly = Some no_time_unit_hourly,
      hourly_units = Some no_time_unit_units\<rparr>"

definition other_time_unit_hourly :: "(string \<times> scalar list) list" where
  "other_time_unit_hourly =
     [(''time'', [Str ''2024-01-01T00:00'']), (''temperature_2m'', [Num 11]),
      (''time_unit'', [Str ''s''])]"

definition other_time_unit_response :: document where
  "other_time_unit_response =
     \<lparr>scalars = example_scalars, hourly = Some other_time_unit_hourly,
      hourly_units = Some no_time_unit_units\<rparr>"

section \<open>Properties\<close>

subsection \<open>Frames\<close>

lemma and_then_Inr [simp]: "and_then (Inr x) f = f x"
  by (simp add: and_then_def)

lemma and_then_Inl [simp]: "and_then (Inl e) f = Inl e"
  by (simp add: and_then_def)

lemma map_result_all_Inr:
  "(\<And>x. x \<in> set xs \<Longrightarrow> f x = Inr (g x)) \<Longrightarrow> map_result f xs = Inr (map g xs)"
  by (induction xs) auto

lemma nrows_setitem [simp]: "nrows (setitem df k c) = nrows df"
  by (simp add: setitem_def)

lemma names_setitem:
  "names (setitem df k c) = (if k \<in> set (names df) then names df else names df @ [k])"
  by (auto simp: setitem_def names_def intro!: map_idI split: prod.splits)

lemma set_names_setitem [simp]: "set (names (setitem df k c)) = insert k (set (names df))"
  by (auto simp: names_setitem)

lemma distinct_names_setitem [simp]:
  "distinct (names (setitem df k c)) = distinct (names df)"
  by (auto simp: names_setitem)

lemma map_of_replace:
  "map_of (map (\<lambda>(n, old). if n = k then (n, c) else (n, old)) cs) x
   = (if x = k \<and> k \<in> fst ` set cs then Some c else map_of cs x)"
proof (induction cs)
  case Nil
  then show ?case by simp
next
  case (Cons a cs)
  obtain n v where a: "a = (n, v)" by (cases a)
  show ?case
  proof (cases "x = k")
    case True
    with Cons.IH show ?thesis unfolding a by (cases "n = k") simp_all
  next
    case False
    with Cons.IH show ?thesis unfolding a by (cases "n = k") simp_all
  qed
qed

lemma map_of_setitem:
  "map_of (columns (setitem df k c)) x = (if x = k then Some c else map_of (columns df) x)"
proof (cases "k \<in> set (names df)")
  case True
  then show ?thesis
    by (simp add: setitem_def names_def map_of_replace)
next
  case False
  then have "map_of (columns df) k = None"
    by (simp add: names_def map_of_eq_None_iff)
  with False show ?thesis
    by (simp add: setitem_def map_add_def split: option.splits)
qed

lemma uniform_setitem:
  "uniform df \<Longrightarrow> length c = nrows df \<Longrightarrow> uniform (setitem df k c)"
  by (auto simp: uniform_def setitem_def split: if_splits)

lemma filter_label_distinct:
  "distinct (map fst cs) \<Longrightarrow>
   filter (\<lambda>c. fst c = k) cs = (case map_of cs k of None \<Rightarrow> [] | Some v \<Rightarrow> [(k, v)])"
proof (induction cs)
  case Nil
  then show ?case by simp
next
  case (Cons a cs)
  obtain n v where a: "a = (n, v)" by (cases a)
  show ?case
  proof (cases "n = k")
    case True
    with Cons.prems a have "k \<notin> fst ` set cs" by auto
    then have "filter (\<lambda>c. fst c = k) cs = []"
      by (auto simp: filter_empty_conv)
    with True a show ?thesis by simp
  next
    case False
    with Cons a show ?thesis by simp
  qed
qed

lemma getitem_distinct:
  "distinct (names df) \<Longrightarrow>
   getitem df k = (case map_of (columns df) k of None \<Rightarrow> Inl (KeyError [k]) | Some v \<Rightarrow> Inr v)"
  by (simp add: getitem_def names_def filter_label_distinct split: option.splits)

lemma filter_label_concat:
  "distinct ls \<Longrightarrow> l \<in> set ls \<Longrightarrow>
   filter (\<lambda>c. fst c = l) (concat (map (\<lambda>l'. filter (\<lambda>c. fst c = l') cs) ls))
   = filter (\<lambda>c. fst c = l) cs"
proof (induction ls)
  case Nil
  then show ?case by simp
next
  case (Cons a ls)
  have other: "filter (\<lambda>c. fst c = l) (concat (map (\<lambda>l'. filter (\<lambda>c. fst c = l') cs) ks)) = []"
    if "l \<notin> set ks" for ks
    using that by (induction ks) (auto simp: filter_empty_conv)
  show ?case
  proof (cases "a = l")
    case True
    with Cons.prems have "l \<notin> set ls" by simp
    with True show ?thesis
      by (simp add: other)
  next
    case False
    then have "filter (\<lambda>c. fst c = l) (filter (\<lambda>c. fst c = a) cs) = []"
      by (auto simp: filter_empty_conv)
    with False Cons show ?thesis by simp
  qed
qed

lemma broadcast_all_Nil [simp]: "broadcast_all g df [] = df"
  by (simp add: broadcast_all_def)

lemma broadcast_all_snoc [simp]:
  "broadcast_all g df (kvs @ [(k, v)]) = setitem_scalar (broadcast_all g df kvs) (g k) v"
  by (simp add: broadcast_all_def)

lemma nrows_broadcast_all [simp]: "nrows (broadcast_all g df kvs) = nrows df"
  by (induction kvs rule: rev_induct) (auto simp: setitem_scalar_def)

lemma set_names_broadcast_all:
  "set (names (broadcast_all g df kvs)) = set (names df) \<union> g ` fst ` set kvs"
  by (induction kvs rule: rev_induct) (force simp: setitem_scalar_def)+

lemma distinct_names_broadcast_all [simp]:
  "distinct (names (broadcast_all g df kvs)) = distinct (names df)"
  by (induction kvs rule: rev_induct) (auto simp: setitem_scalar_def)

lemma uniform_broadcast_all: "uniform df \<Longrightarrow> uniform (broadcast_all g df kvs)"
  by (induction kvs rule: rev_induct) (auto simp: setitem_scalar_def intro!: uniform_setitem)

lemma map_of_broadcast_all_other:
  "x \<notin> g ` fst ` set kvs \<Longrightarrow>
   map_of (columns (broadcast_all g df kvs)) x = map_of (columns df) x"
  by (induction kvs rule: rev_induct) (auto simp: setitem_scalar_def map_of_setitem)

lemma map_of_broadcast_all_key:
  assumes "inj g" and "distinct (map fst kvs)" and "(k, v) \<in> set kvs"
  shows "map_of (columns (broadcast_all g df kvs)) (g k) = Some (replicate (nrows df) (Value v))"
  using assms(2,3)
proof (induction kvs rule: rev_induct)
  case Nil
  then show ?case by simp
next
  case (snoc a kvs)
  obtain k' v' where a: "a = (k', v')" by (cases a)
  show ?case
  proof (cases "k = k'")
    case True
    with snoc.prems a have "v = v'"
      by (force simp: image_iff)
    with True a show ?thesis
      by (simp add: setitem_scalar_def map_of_setitem)
  next
    case False
    with snoc.prems a have "(k, v) \<in> set kvs" by auto
    moreover from snoc.prems have "distinct (map fst kvs)" by simp
    ultimately have "map_of (columns (broadcast_all g df kvs)) (g k)
        = Some (replicate (nrows df) (Value v))"
      by (rule snoc.IH[rotated])
    moreover from False assms(1) have "g k \<noteq> g k'"
      by (auto dest: injD)
    ultimately show ?thesis
      using a by (simp add: setitem_scalar_def map_of_setitem)
  qed
qed

subsection \<open>Reading and printing time stamps\<close>

lemma length16: "length s = 16 \<Longrightarrow>
  \<exists>c0 c1 c2 c3 c4 c5 c6 c7 c8 c9 c10 c11 c12 c13 c14 c15.
    s = [c0, c1, c2, c3, c4, c5, c6, c7, c8, c9, c10, c11, c12, c13, c14, c15]"
  by (auto simp: eval_nat_numeral length_Suc_conv)

lemma num2_digits: "num2 a b = Some n \<Longrightarrow> digit a \<noteq> None \<and> digit b \<noteq> None"
  by (auto simp: num2_def split: option.splits)

lemma num4_digits:
  "num4 a b c d = Some n \<Longrightarrow> digit a \<noteq> None \<and> digit b \<noteq> None \<and> digit c \<noteq> None \<and> digit d \<noteq> None"
  by (auto simp: num4_def split: option.splits dest: num2_digits)

lemma parse_date_shape:
  assumes "parse_date [y1, y2, y3, y4, c1, m1, m2, c2, d1, d2] = Some d"
  shows "c1 = CHR ''-'' \<and> c2 = CHR ''-'' \<and> digit y1 \<noteq> None \<and> digit y2 \<noteq> None \<and> digit y3 \<noteq> None \<and>
     digit y4 \<noteq> None \<and> digit m1 \<noteq> None \<and> digit m2 \<noteq> None \<and> digit d1 \<noteq> None \<and> digit d2 \<noteq> None"
  using assms
  by (auto simp: parse_date_def split: if_splits option.splits dest: num2_digits num4_digits)

lemma parse_time_minutes_shape:
  assumes "parse_time False [h1, h2, c1, m1, m2] = Some t"
  shows "c1 = CHR '':'' \<and> digit h1 \<noteq> None \<and> digit h2 \<noteq> None \<and> digit m1 \<noteq> None \<and> digit m2 \<noteq> None"
  using assms
  by (auto simp: parse_time_def split: if_splits option.splits dest: num2_digits)

lemma guess_format_documented:
  assumes "parse_with documented_format s = Some ts"
  shows "guess_format s = Some documented_format"
proof -
  from assms have len: "length s = 16" and sep: "s ! 10 = CHR ''T''"
    by (auto simp: parse_with_def documented_format_def split: if_splits)
  from length16[OF len] obtain c0 c1 c2 c3 c4 c5 c6 c7 c8 c9 c10 c11 c12 c13 c14 c15
    where s: "s = [c0, c1, c2, c3, c4, c5, c6, c7, c8, c9, c10, c11, c12, c13, c14, c15]"
    by blast
  from assms obtain d t where d: "parse_date [c0, c1, c2, c3, c4, c5, c6, c7, c8, c9] = Some d"
    and t: "parse_time False [c11, c12, c13, c14, c15] = Some t"
    by (auto simp: parse_with_def documented_format_def s split: if_splits option.splits)
  from parse_date_shape[OF d] parse_time_minutes_shape[OF t] sep
  show ?thesis
    by (simp add: guess_format_def iso_shape_def documented_format_def s)
qed

lemma digit_digit_char: "n < 10 \<Longrightarrow> digit (digit_char n) = Some n"
  by (simp add: digit_def digit_char_def Let_def)

lemma digit_SomeD: "digit c = Some n \<Longrightarrow> n < 10 \<and> digit_char n = c"
proof -
  assume a: "digit c = Some n"
  then have r: "48 \<le> (of_char c :: nat)" "(of_char c :: nat) \<le> 57" and n: "n = of_char c - 48"
    by (auto simp: digit_def Let_def split: if_splits)
  from r n have "48 + n = of_char c" by simp
  then have "char_of (48 + n) = char_of (of_char c :: nat)" by simp
  with r n show ?thesis by (simp add: digit_char_def)
qed

lemma num2_SomeD: "num2 a b = Some n \<Longrightarrow> n < 100 \<and> pad2 n = [a, b]"
  by (auto simp: num2_def pad2_def split: option.splits dest!: digit_SomeD)

lemma num4_SomeD: "num4 a b c d = Some n \<Longrightarrow> n < 10000 \<and> pad4 n = [a, b, c, d]"
  by (auto simp: num4_def pad4_def split: option.splits dest!: num2_SomeD)

lemma parse_date_str:
  assumes "parse_date s = Some d"
  shows "date_str d = s"
proof -
  from assms have "length s = 10"
    by (auto simp: parse_date_def split: list.splits)
  then obtain y1 y2 y3 y4 c1 m1 m2 c2 d1 d2 where s: "s = [y1, y2, y3, y4, c1, m1, m2, c2, d1, d2]"
    by (auto simp: eval_nat_numeral length_Suc_conv)
  from assms show ?thesis
    unfolding s
    by (auto simp: parse_date_def date_str_def split: if_splits option.splits
        dest!: num2_SomeD num4_SomeD)
qed

lemma parse_time_minutes_str:
  assumes "parse_time False s = Some t"
  shows "time_str t = s @ '':00'' \<and> valid_time t \<and> length s = 5"
proof -
  from assms have "length s = 5"
    by (auto simp: parse_time_def split: list.splits)
  then obtain h1 h2 c1 m1 m2 where s: "s = [h1, h2, c1, m1, m2]"
    by (auto simp: eval_nat_numeral length_Suc_conv)
  have "digit CHR ''0'' = Some 0"
    by (simp add: digit_def)
  then have zero: "pad2 0 = ''00''"
    by (auto simp: pad2_def dest: digit_SomeD)
  from assms show ?thesis
    unfolding s
    by (auto simp: parse_time_def time_str_def zero split: if_splits option.splits
        dest!: num2_SomeD)
qed

lemma num2_pad2: "n < 100 \<Longrightarrow> num2 (digit_char (n div 10 mod 10)) (digit_char (n mod 10)) = Some n"
  by (simp add: num2_def digit_digit_char)

lemma parse_time_seconds:
  assumes "parse_time False s = Some t"
  shows "parse_time True (s @ '':00'') = Some t"
proof -
  from assms have "length s = 5"
    by (auto simp: parse_time_def split: list.splits)
  then obtain h1 h2 c1 m1 m2 where s: "s = [h1, h2, c1, m1, m2]"
    by (auto simp: eval_nat_numeral length_Suc_conv)
  have zero: "num2 CHR ''0'' CHR ''0'' = Some 0"
    by (simp add: num2_def digit_def)
  from assms show ?thesis
    unfolding s
    by (auto simp: parse_time_def zero split: if_splits option.splits)
qed

lemma recombine_roundtrip:
  assumes "parse_with documented_format s = Some ts"
  shows "parse_with recombined_format (date_str (ts_date ts) @ '' '' @ time_str (ts_time ts)) = Some ts"
    and "guess_format (date_str (ts_date ts) @ '' '' @ time_str (ts_time ts)) = Some recombined_format"
proof -
  from assms have len: "length s = 16"
    and d: "parse_date (take 10 s) = Some (ts_date ts)"
    and t: "parse_time False (drop 11 s) = Some (ts_time ts)"
    by (auto simp: parse_with_def documented_format_def split: if_splits option.splits)
  define r where "r = date_str (ts_date ts) @ '' '' @ time_str (ts_time ts)"
  have r: "r = take 10 s @ '' '' @ drop 11 s @ '':00''"
    using parse_date_str[OF d] parse_time_minutes_str[OF t] by (simp add: r_def)
  from len have lr: "length r = 19" and sep: "r ! 10 = CHR '' ''"
    and tk: "take 10 r = take 10 s" and dr: "drop 11 r = drop 11 s @ '':00''"
    unfolding r by (simp_all add: nth_append)
  from d parse_time_seconds[OF t] have "parse_with recombined_format r = Some ts"
    by (simp add: parse_with_def recombined_format_def lr sep tk dr)
  then show "parse_with recombined_format (date_str (ts_date ts) @ '' '' @ time_str (ts_time ts)) = Some ts"
    by (simp only: r_def)
  from length16[OF len] obtain c0 c1 c2 c3 c4 c5 c6 c7 c8 c9 c10 c11 c12 c13 c14 c15
    where s: "s = [c0, c1, c2, c3, c4, c5, c6, c7, c8, c9, c10, c11, c12, c13, c14, c15]"
    by blast
  from d t have d': "parse_date [c0, c1, c2, c3, c4, c5, c6, c7, c8, c9] = Some (ts_date ts)"
    and t': "parse_time False [c11, c12, c13, c14, c15] = Some (ts_time ts)"
    by (simp_all add: s)
  have z: "digit CHR ''0'' \<noteq> None" by (simp add: digit_def)
  from parse_date_shape[OF d'] parse_time_minutes_shape[OF t'] z
  have "guess_format r = Some recombined_format"
    unfolding r by (simp add: s guess_format_def iso_shape_def recombined_format_def)
  then show "guess_format (date_str (ts_date ts) @ '' '' @ time_str (ts_time ts)) = Some recombined_format"
    by (simp only: r_def)
qed

subsection \<open>Flattening a well-formed document\<close>

lemma inj_unit_label: "inj unit_label"
  by (simp add: inj_def unit_label_def)

lemma unit_label_suffix: "unit_label k = x \<Longrightarrow> take 5 (rev x) = ''tinu_''"
  by (auto simp: unit_label_def)

text \<open>An integer of at most 53 bits is a double.\<close>

lemma bit_length_bound: "n < 2 ^ k \<Longrightarrow> bit_length n \<le> k"
proof (induction k arbitrary: n)
  case 0
  then show ?case by (simp add: bit_length.simps[of n])
next
  case (Suc k)
  show ?case
  proof (cases "n \<le> 0")
    case True
    then show ?thesis by (simp add: bit_length.simps[of n])
  next
    case False
    from Suc.prems have "n div 2 < 2 ^ k" by simp
    from Suc.IH[OF this] False show ?thesis
      by (simp add: bit_length.simps[of n])
  qed
qed

lemma nearest_double_exact: "\<bar>i\<bar> < 2 ^ 53 \<Longrightarrow> nearest_double i = of_int i"
proof -
  assume "\<bar>i\<bar> < 2 ^ 53"
  then have "bit_length \<bar>i\<bar> - 53 = 0"
    using bit_length_bound[of "\<bar>i\<bar>" 53] by simp
  then have "nearest_double i = of_int (sgn i * \<bar>i\<bar>)"
    by (simp add: nearest_double_def Let_def del: of_int_mult)
  then show ?thesis
    by (simp only: sgn_mult_abs)
qed

lemma length_as_column [simp]: "length (as_column xs) = length xs"
  by (simp add: as_column_def)

lemma to_float64_float: "is_float v \<Longrightarrow> to_float64 v = Value v"
  by (cases v) (simp_all add: is_float_def to_float64_def)

lemma as_column_floats: "list_all is_float xs \<Longrightarrow> as_column xs = map Value xs"
  by (simp add: as_column_def list_all_iff to_float64_float)

lemma as_column_int64: "list_all is_int64 xs \<Longrightarrow> as_column xs = map Value xs"
proof -
  assume "list_all is_int64 xs"
  then have "\<not> list_ex (\<lambda>v. v = Null \<or> is_float v) xs"
    by (auto simp: list_all_iff list_ex_iff is_int64_def is_float_def split: scalar.splits)
  then show ?thesis
    by (simp add: as_column_def float_column_def)
qed

lemma as_column_strings:
  "list_all (\<lambda>v. \<exists>s. v = Str s) xs \<Longrightarrow> as_column xs = map Value xs"
proof -
  assume "list_all (\<lambda>v. \<exists>s. v = Str s) xs"
  then have "\<not> list_ex (\<lambda>v. v = Null \<or> is_float v) xs"
    by (auto simp: list_all_iff list_ex_iff is_float_def)
  then show ?thesis
    by (simp add: as_column_def float_column_def)
qed

lemma DataFrame_uniform:
  assumes "h \<noteq> []" and "list_all (\<lambda>(k, xs). length xs = n) h"
  shows "DataFrame h = Inr \<lparr>nrows = n, columns = map (\<lambda>(k', ys). (k', as_column ys)) h\<rparr>"
proof -
  from assms(1) obtain k xs rest where h: "h = (k, xs) # rest"
    by (cases h) auto
  with assms(2) have "length xs = n" and "list_all (\<lambda>(k', ys). length ys = length xs) rest"
    by (auto simp: list_all_iff)
  with h show ?thesis
    by (simp add: DataFrame_def)
qed

lemma map_of_as_column:
  "map_of (map (\<lambda>(k', ys). (k', as_column ys)) h) x = map_option as_column (map_of h x)"
  by (induction h) auto

lemma flatten_hourly_data_eq:
  assumes "hourly d = Some h" and "hourly_units d = Some u" and "DataFrame h = Inr df0"
  shows "flatten_hourly_data d =
     Inr (broadcast_all unit_label
            (broadcast_all (\<lambda>k. k) df0
               (filter (\<lambda>(k, v). k \<notin> set [''hourly'', ''hourly_units'']) (scalars d))) u)"
  using assms
  by (simp add: flatten_hourly_data_def broadcast_all_def unit_label_def Let_def)

lemma flatten_well_formed:
  assumes v: "well_formed d" and h: "hourly d = Some h" and u: "hourly_units d = Some u"
    and tm: "map_of h ''time'' = Some tm"
  shows "\<exists>df. flatten_hourly_data d = Inr df \<and> flattened d h u (length tm) df"
proof -
  let ?n = "length tm"
  from v h u tm have dh: "distinct (map fst h)" and du: "distinct (map fst u)"
    and ds: "distinct (map fst (scalars d))"
    and ks: "set (map fst (scalars d)) = set scalar_fields"
    and lens: "list_all (\<lambda>(k, xs). length xs = ?n) h"
    by (simp_all add: well_formed_def)
  from tm have hne: "h \<noteq> []" by auto
  define df0 where "df0 = \<lparr>nrows = ?n, columns = map (\<lambda>(k', ys). (k', as_column ys)) h\<rparr>"
  have df0: "DataFrame h = Inr df0"
    unfolding df0_def by (rule DataFrame_uniform[OF hne lens])
  have in_fields: "k \<in> set scalar_fields" if "(k, w) \<in> set (scalars d)" for k w
    using that ks by force
  have meta: "filter (\<lambda>(k, v). k \<notin> set [''hourly'', ''hourly_units'']) (scalars d) = scalars d"
    by (rule filter_True) (auto dest!: in_fields simp: scalar_fields_def)
  define df1 where "df1 = broadcast_all (\<lambda>k. k) df0 (scalars d)"
  define df2 where "df2 = broadcast_all unit_label df1 u"
  have res: "flatten_hourly_data d = Inr df2"
    unfolding df2_def df1_def using flatten_hourly_data_eq[OF h u df0] by (simp only: meta)
  have n0: "names df0 = map fst h"
    by (simp add: names_def df0_def case_prod_unfold comp_def)
  have u0: "uniform df0"
    using lens by (auto simp: uniform_def df0_def list_all_iff)
  have m0: "map_of (columns df0) x = map_option as_column (map_of h x)" for x
    by (simp add: df0_def map_of_as_column)
  have nr: "nrows df2 = ?n"
    by (simp add: df2_def df1_def df0_def)
  have dist: "distinct (names df2)"
    using dh by (simp add: df2_def df1_def n0)
  have unif: "uniform df2"
    unfolding df2_def df1_def by (intro uniform_broadcast_all u0)
  have nms: "set (names df2) = fst ` set h \<union> fst ` set (scalars d) \<union> unit_label ` fst ` set u"
    by (simp add: df2_def df1_def set_names_broadcast_all n0)
  have units: "map_of (columns df2) (unit_label k) = Some (replicate ?n (Value w))"
    if "(k, w) \<in> set u" for k w
    unfolding df2_def
    using map_of_broadcast_all_key[OF inj_unit_label du that, of df1]
    by (simp add: df1_def df0_def)
  have nounit: "map_of (columns df2) x = map_of (columns df1) x" if "x \<notin> range unit_label" for x
    unfolding df2_def using that by (intro map_of_broadcast_all_other) auto
  have scal: "map_of (columns df2) k = Some (replicate ?n (Value w))"
    if "(k, w) \<in> set (scalars d)" "k \<notin> range unit_label" for k w
    using map_of_broadcast_all_key[of "\<lambda>k. k", OF _ ds that(1), of df0] nounit[OF that(2)]
    by (simp add: df1_def df0_def)
  have other: "map_of (columns df2) x = map_option as_column (map_of h x)"
    if "x \<notin> fst ` set (scalars d)" "x \<notin> range unit_label" for x
  proof -
    from that(1) have "map_of (columns df1) x = map_of (columns df0) x"
      unfolding df1_def by (intro map_of_broadcast_all_other) auto
    with nounit[OF that(2)] m0 show ?thesis by simp
  qed
  from nr dist unif nms units scal other have "flattened d h u ?n df2"
    unfolding flattened_def by blast
  with res show ?thesis by blast
qed

subsection \<open>Splitting the time stamps, renaming, projecting\<close>

lemma documented_timeD:
  "documented_time v \<Longrightarrow>
   \<exists>s ts. v = Str s \<and> parse_with documented_format s = Some ts \<and> in_bounds ts \<and> read_time v = Some ts"
  by (auto simp: documented_time_def read_time_def split: option.splits scalar.splits)

lemma as_column_documented: "list_all documented_time tm \<Longrightarrow> as_column tm = map Value tm"
  by (rule as_column_strings) (auto simp: list_all_iff dest: documented_timeD)

lemma parse_cell_Str:
  "parse_with f s = Some ts \<Longrightarrow> in_bounds ts \<Longrightarrow>
   parse_cell f (Value (Str s)) = Inr (TimestampCell ts)"
  by (simp add: parse_cell_def)

lemma parse_cells_documented:
  "list_all documented_time tm \<Longrightarrow>
   map_result (parse_cell documented_format) (map Value tm) = Inr (stamp_cells tm)"
proof (induction tm)
  case Nil
  then show ?case by (simp add: stamp_cells_def)
next
  case (Cons v tm)
  from Cons.prems obtain s ts where "v = Str s" "parse_with documented_format s = Some ts"
    "in_bounds ts" "read_time v = Some ts"
    by (auto dest: documented_timeD)
  moreover from Cons have "map_result (parse_cell documented_format) (map Value tm) = Inr (stamp_cells tm)"
    by simp
  ultimately show ?case
    by (simp add: parse_cell_Str stamp_cells_def)
qed

lemma to_datetime_documented:
  assumes "list_all documented_time tm"
  shows "to_datetime (map Value tm) = Inr (stamp_cells tm)"
proof (cases tm)
  case Nil
  then show ?thesis by (simp add: to_datetime_def stamp_cells_def)
next
  case (Cons v vs)
  with assms obtain s ts where v: "v = Str s" and p: "parse_with documented_format s = Some ts"
    by (auto dest: documented_timeD)
  from parse_cells_documented[OF assms] guess_format_documented[OF p] Cons v
  show ?thesis
    by (simp add: to_datetime_def)
qed

lemma dt_time_stamps: "dt_time (stamp_cells tm) = Inr (time_cells tm)"
  unfolding dt_time_def stamp_cells_def time_cells_def
  by (induction tm) simp_all

lemma dt_date_stamps: "dt_date (stamp_cells tm) = Inr (date_cells tm)"
  unfolding dt_date_def stamp_cells_def date_cells_def
  by (induction tm) simp_all

lemma transform_data_split:
  assumes "flatten_hourly_data d = Inr df" and "distinct (names df)"
    and "map_of (columns df) ''time'' = Some (map Value tm)"
    and "list_all documented_time tm"
  shows "transform_data d =
     getitem_list (rename [(''temperature_2m'', ''temperature''),
                          (''temperature_2m_unit'', ''temperature_unit'')] (split_time df tm))
       ordered_columns"
  using assms
  by (simp add: transform_data_def getitem_distinct map_of_setitem to_datetime_documented
      dt_time_stamps dt_date_stamps split_time_def Let_def)

lemma new_label_eq:
  "new_label k = (if k = ''temperature_2m'' then ''temperature''
                  else if k = ''temperature_2m_unit'' then ''temperature_unit'' else k)"
  by (simp add: new_label_def column_renames_def)

lemma rename_columns:
  "columns (rename column_renames df) = map (\<lambda>c. (new_label (fst c), snd c)) (columns df)"
  by (simp add: rename_def new_label_def case_prod_unfold)

lemma nrows_rename [simp]: "nrows (rename m df) = nrows df"
  by (simp add: rename_def)

lemma names_rename: "names (rename column_renames df) = map new_label (names df)"
  by (simp add: names_def rename_columns comp_def)

lemma uniform_rename: "uniform df \<Longrightarrow> uniform (rename column_renames df)"
  by (auto simp: uniform_def rename_columns)

lemma filter_rename:
  "filter (\<lambda>c. fst c = l) (columns (rename column_renames df))
   = map (\<lambda>c. (l, snd c)) (filter (\<lambda>c. new_label (fst c) = l) (columns df))"
  unfolding rename_columns by (induction "columns df" arbitrary: df) (auto simp: filter_map comp_def)

lemma getitem_list_present:
  assumes "set ls \<subseteq> set (names df)"
  shows "getitem_list df ls =
     Inr (df\<lparr>columns := concat (map (\<lambda>l. filter (\<lambda>c. fst c = l) (columns df)) ls)\<rparr>)"
proof -
  from assms have "filter (\<lambda>l. l \<notin> set (names df)) ls = []"
    by (auto simp: filter_empty_conv)
  then show ?thesis by (simp add: getitem_list_def)
qed

lemma getitem_list_missing:
  assumes "l \<in> set ls" and "l \<notin> set (names df)"
  shows "getitem_list df ls = Inl (KeyError (filter (\<lambda>l. l \<notin> set (names df)) ls))"
proof -
  from assms have "l \<in> set (filter (\<lambda>l. l \<notin> set (names df)) ls)" by simp
  then obtain m ms where "filter (\<lambda>l. l \<notin> set (names df)) ls = m # ms"
    by (cases "filter (\<lambda>l. l \<notin> set (names df)) ls") auto
  then show ?thesis by (simp add: getitem_list_def)
qed

lemma getitem_projected:
  assumes "distinct ls" and "l \<in> set ls"
  shows "getitem (df\<lparr>columns := concat (map (\<lambda>l. filter (\<lambda>c. fst c = l) (columns df)) ls)\<rparr>) l
         = getitem df l"
  using filter_label_concat[OF assms, of "columns df"] by (simp add: getitem_def)

lemma set_projected:
  "set (concat (map (\<lambda>l. filter (\<lambda>c. fst c = l) cs) ls)) = {c \<in> set cs. fst c \<in> set ls}"
  by auto

lemma names_projected:
  assumes "\<And>l. l \<in> set ls \<Longrightarrow> \<exists>v. filter (\<lambda>c. fst c = l) cs = [(l, v)]"
  shows "map fst (concat (map (\<lambda>l. filter (\<lambda>c. fst c = l) cs) ls)) = ls"
  using assms
proof (induction ls)
  case Nil
  then show ?case by simp
next
  case (Cons a ls)
  from Cons.prems[of a] obtain v where "filter (\<lambda>c. fst c = a) cs = [(a, v)]" by auto
  moreover from Cons have "map fst (concat (map (\<lambda>l. filter (\<lambda>c. fst c = l) cs) ls)) = ls"
    by simp
  ultimately show ?case by simp
qed

text \<open>The frame before renaming.\<close>

lemma nrows_split_time [simp]: "nrows (split_time df tm) = nrows df"
  by (simp add: split_time_def)

lemma distinct_split_time [simp]: "distinct (names (split_time df tm)) = distinct (names df)"
  by (simp add: split_time_def)

lemma set_names_split_time:
  "set (names (split_time df tm)) = insert ''time'' (insert ''hour'' (set (names df)))"
  by (auto simp: split_time_def)

lemma map_of_split_time:
  "map_of (columns (split_time df tm)) x =
     (if x = ''time'' then Some (date_cells tm)
      else if x = ''hour'' then Some (time_cells tm) else map_of (columns df) x)"
  by (simp add: split_time_def map_of_setitem)

lemma uniform_split_time:
  "uniform df \<Longrightarrow> nrows df = length tm \<Longrightarrow> uniform (split_time df tm)"
  unfolding split_time_def
  by (intro uniform_setitem) (simp_all add: stamp_cells_def date_cells_def time_cells_def)

lemma distinct_ordered_columns: "distinct ordered_columns"
  by (simp add: ordered_columns_def)

lemma valid_well_formed: "valid_response d \<Longrightarrow> well_formed d"
  by (simp add: valid_response_def)

lemma time_not_unit_label: "''time'' \<notin> range unit_label"
  by (auto dest!: unit_label_suffix[OF sym])

lemma transform_well_formed:
  assumes wf: "well_formed d" and h: "hourly d = Some h" and u: "hourly_units d = Some u"
    and tm: "map_of h ''time'' = Some tm"
  obtains df where "flattened d h u (length tm) df"
    and "transform_data d = getitem_list (shaped df tm) ordered_columns"
proof -
  from flatten_well_formed[OF wf h u tm] obtain df
    where fl: "flatten_hourly_data d = Inr df" and sh: "flattened d h u (length tm) df"
    by blast
  from wf h u tm have doc: "list_all documented_time tm"
    and ks: "set (map fst (scalars d)) = set scalar_fields"
    by (simp_all add: well_formed_def)
  from ks have "''time'' \<notin> fst ` set (scalars d)"
    by (simp add: scalar_fields_def)
  with sh tm time_not_unit_label have col: "map_of (columns df) ''time'' = Some (map Value tm)"
    by (simp add: flattened_def as_column_documented[OF doc])
  from sh have "distinct (names df)"
    by (simp add: flattened_def)
  from transform_data_split[OF fl this col doc]
  have "transform_data d = getitem_list (shaped df tm) ordered_columns"
    by (simp add: shaped_def column_renames_def)
  with sh show thesis by (rule that)
qed

lemma label_not_unit:
  "''time'' \<notin> range unit_label" "''hour'' \<notin> range unit_label"
  "''temperature'' \<notin> range unit_label" "''temperature_2m'' \<notin> range unit_label"
  "\<And>f. f \<in> set scalar_fields \<Longrightarrow> f \<notin> range unit_label"
  by (auto simp: scalar_fields_def dest!: unit_label_suffix unit_label_suffix[OF sym])

lemma filter_shaped_plain:
  assumes "l \<notin> {''temperature'', ''temperature_unit'', ''temperature_2m'', ''temperature_2m_unit''}"
  shows "filter (\<lambda>c. fst c = l) (columns (shaped df tm))
         = filter (\<lambda>c. fst c = l) (columns (split_time df tm))"
proof -
  from assms have "(\<lambda>c :: string \<times> cell list. new_label (fst c) = l) = (\<lambda>c. fst c = l)"
    by (auto simp: new_label_eq fun_eq_iff)
  then have "filter (\<lambda>c. fst c = l) (columns (shaped df tm))
      = map (\<lambda>c. (l, snd c)) (filter (\<lambda>c. fst c = l) (columns (split_time df tm)))"
    by (simp add: shaped_def filter_rename)
  also have "\<dots> = filter (\<lambda>c. fst c = l) (columns (split_time df tm))"
    by (rule map_idI) auto
  finally show ?thesis .
qed

lemma filter_shaped_renamed:
  assumes "new_label old = new" and "new \<notin> set (names (split_time df tm))"
    and "\<And>k. new_label k = new \<Longrightarrow> k = old \<or> k = new"
  shows "filter (\<lambda>c. fst c = new) (columns (shaped df tm))
         = map (\<lambda>c. (new, snd c)) (filter (\<lambda>c. fst c = old) (columns (split_time df tm)))"
proof -
  have "filter (\<lambda>c. new_label (fst c) = new) (columns (split_time df tm))
      = filter (\<lambda>c. fst c = old) (columns (split_time df tm))"
  proof (rule filter_cong[OF refl])
    fix c assume "c \<in> set (columns (split_time df tm))"
    then have "fst c \<in> set (names (split_time df tm))"
      by (simp add: names_def)
    with assms(2) have "fst c \<noteq> new" by auto
    with assms(1,3) show "(new_label (fst c) = new) = (fst c = old)" by auto
  qed
  then show ?thesis
    by (simp add: shaped_def filter_rename)
qed

lemma getitem_project:
  assumes "l \<in> set ordered_columns"
  shows "getitem (project df ordered_columns) l = getitem df l"
  unfolding project_def by (rule getitem_projected[OF distinct_ordered_columns assms])

lemma getitem_of_filter:
  "filter (\<lambda>c. fst c = l) (columns df) = [(l, v)] \<Longrightarrow> getitem df l = Inr v"
  by (simp add: getitem_def)

lemma filter_split_time:
  assumes "distinct (names df)"
  shows "filter (\<lambda>c. fst c = l) (columns (split_time df tm))
         = (case map_of (columns (split_time df tm)) l of None \<Rightarrow> [] | Some v \<Rightarrow> [(l, v)])"
  using assms by (intro filter_label_distinct) (simp add: names_def[symmetric])

lemma names_flattened:
  "flattened d h u n df \<Longrightarrow>
   set (names (split_time df tm)) =
     {''time'', ''hour''} \<union> fst ` set h \<union> fst ` set (scalars d) \<union> unit_label ` fst ` set u"
  by (auto simp: flattened_def set_names_split_time)

lemma getitem_list_shaped:
  assumes "set ordered_columns \<subseteq> set (names (shaped df tm))"
  shows "getitem_list (shaped df tm) ordered_columns = Inr (project (shaped df tm) ordered_columns)"
  unfolding project_def by (rule getitem_list_present[OF assms])

subsection \<open>The table of a valid response\<close>

lemma valid_keys:
  assumes "valid_response d" and "hourly d = Some h" and "hourly_units d = Some u"
  shows "''temperature_2m'' \<in> fst ` set h" and "''time'' \<in> fst ` set u"
    and "''temperature_2m'' \<in> fst ` set u" and "fst ` set (scalars d) = set scalar_fields"
  using assms by (simp_all add: valid_response_def well_formed_def)

lemma ordered_present:
  assumes v: "valid_response d" and h: "hourly d = Some h" and u: "hourly_units d = Some u"
    and fl: "flattened d h u n df"
  shows "set ordered_columns \<subseteq> set (names (shaped df tm))"
proof -
  note ks = valid_keys[OF v h u]
  have nm: "set (names (shaped df tm)) = new_label ` set (names (split_time df tm))"
    by (simp add: shaped_def names_rename)
  have plain: "l \<in> set (names (shaped df tm))"
    if "l \<in> set (names (split_time df tm))" "new_label l = l" for l
    using that unfolding nm by force
  have renamed: "new_label l \<in> set (names (shaped df tm))"
    if "l \<in> set (names (split_time df tm))" for l
    using that unfolding nm by blast
  note all = names_flattened[OF fl, of tm]
  have "''time'' \<in> set (names (shaped df tm))" "''hour'' \<in> set (names (shaped df tm))"
    by (rule plain; simp add: all new_label_eq)+
  moreover have "f \<in> set (names (shaped df tm))" if "f \<in> set scalar_fields" for f
  proof (rule plain)
    from that ks(4) show "f \<in> set (names (split_time df tm))"
      by (simp add: all)
    from that show "new_label f = f"
      by (auto simp: new_label_eq scalar_fields_def)
  qed
  moreover have "''time_unit'' \<in> set (names (shaped df tm))"
  proof (rule plain)
    from ks(2) have "unit_label ''time'' \<in> unit_label ` fst ` set u" by (rule imageI)
    then show "''time_unit'' \<in> set (names (split_time df tm))"
      by (simp add: all unit_label_def)
    show "new_label ''time_unit'' = ''time_unit''"
      by (simp add: new_label_eq)
  qed
  moreover have "''temperature'' \<in> set (names (shaped df tm))"
    using renamed[of "''temperature_2m''"] ks(1) by (simp add: all new_label_eq)
  moreover have "''temperature_unit'' \<in> set (names (shaped df tm))"
  proof -
    from ks(3) have "unit_label ''temperature_2m'' \<in> unit_label ` fst ` set u" by (rule imageI)
    then have "''temperature_2m_unit'' \<in> set (names (split_time df tm))"
      by (simp add: all unit_label_def)
    from renamed[OF this] show ?thesis by (simp add: new_label_eq)
  qed
  ultimately show ?thesis
    by (auto simp: ordered_columns_def scalar_fields_def)
qed

lemma transform_valid:
  assumes v: "valid_response d" and h: "hourly d = Some h" and u: "hourly_units d = Some u"
    and tm: "map_of h ''time'' = Some tm"
  obtains df where "flattened d h u (length tm) df"
    and "transform_data d = Inr (project (shaped df tm) ordered_columns)"
proof -
  from transform_well_formed[OF valid_well_formed[OF v] h u tm] obtain df
    where fl: "flattened d h u (length tm) df"
      and tr: "transform_data d = getitem_list (shaped df tm) ordered_columns"
    by blast
  from tr getitem_list_shaped[OF ordered_present[OF v h u fl]]
  have "transform_data d = Inr (project (shaped df tm) ordered_columns)" by simp
  with fl show thesis by (rule that)
qed

lemma nrows_project_shaped:
  "nrows (project (shaped df tm) ls) = nrows df"
  by (simp add: project_def shaped_def)

lemma uniform_project_shaped:
  assumes "uniform df" and "nrows df = length tm"
  shows "uniform (project (shaped df tm) ls)"
proof -
  from assms have "uniform (shaped df tm)"
    unfolding shaped_def by (intro uniform_rename uniform_split_time)
  then show ?thesis
    by (auto simp: uniform_def project_def)
qed

lemma getitem_output_plain:
  assumes "l \<in> set ordered_columns" and "distinct (names df)"
    and "l \<notin> {''temperature'', ''temperature_unit'', ''temperature_2m'', ''temperature_2m_unit''}"
    and "map_of (columns (split_time df tm)) l = Some v"
  shows "getitem (project (shaped df tm) ordered_columns) l = Inr v"
proof -
  have "filter (\<lambda>c. fst c = l) (columns (shaped df tm)) = [(l, v)]"
    using assms(4) by (simp add: filter_shaped_plain[OF assms(3)] filter_split_time[OF assms(2)])
  then show ?thesis
    by (simp add: getitem_project[OF assms(1)] getitem_of_filter)
qed

lemma getitem_output_renamed:
  assumes "new \<in> set ordered_columns" and "distinct (names df)"
    and "new_label old = new" and "new \<notin> set (names (split_time df tm))"
    and "\<And>k. new_label k = new \<Longrightarrow> k = old \<or> k = new"
    and "map_of (columns (split_time df tm)) old = Some v"
  shows "getitem (project (shaped df tm) ordered_columns) new = Inr v"
proof -
  have "filter (\<lambda>c. fst c = new) (columns (shaped df tm)) = [(new, v)]"
    using assms(6)
    by (simp add: filter_shaped_renamed[OF assms(3,4,5)] filter_split_time[OF assms(2)])
  then show ?thesis
    by (simp add: getitem_project[OF assms(1)] getitem_of_filter)
qed

text \<open>
  Claim C1. For a valid response whose hourly arrays have \<open>N\<close> entries,
  \<^verbatim>\<open>transform_data\<close> returns a table of \<open>N\<close> rows, every column of length \<open>N\<close>, and
  the rows are in the order of the input: row \<open>i\<close> holds the date and the time of
  day of the \<open>i\<close>-th entry of \<^verbatim>\<open>hourly.time\<close>, and, when the temperatures are floats,
  \<^verbatim>\<open>int64\<close> integers or \<^verbatim>\<open>None\<close>, the cell pandas makes of the \<open>i\<close>-th temperature.
  Nothing is sorted.
\<close>

theorem transform_data_rows:
  assumes "valid_response d" and "hourly d = Some h"
    and "map_of h ''time'' = Some tm" and "map_of h ''temperature_2m'' = Some temps"
  shows "\<exists>t. transform_data d = Inr t \<and> nrows t = length tm \<and>
           (\<forall>c \<in> set (columns t). length (snd c) = length tm) \<and>
           getitem t ''time'' = Inr (map (\<lambda>v. DateCell (ts_date (the (read_time v)))) tm) \<and>
           getitem t ''hour'' = Inr (map (\<lambda>v. TimeCell (ts_time (the (read_time v)))) tm) \<and>
           (list_all numeric temps \<longrightarrow> (''temperature'', as_column temps) \<in> set (columns t))"
proof -
  from assms(1,2) obtain u where u: "hourly_units d = Some u"
    by (auto simp: valid_response_def split: option.splits)
  from transform_valid[OF assms(1,2) u assms(3)] obtain df
    where fl: "flattened d h u (length tm) df"
      and tr: "transform_data d = Inr (project (shaped df tm) ordered_columns)"
    by blast
  let ?t = "project (shaped df tm) ordered_columns"
  from fl have dist: "distinct (names df)" and unif: "uniform df" and nr: "nrows df = length tm"
    by (simp_all add: flattened_def)
  have rows: "nrows ?t = length tm"
    by (simp add: nrows_project_shaped nr)
  from uniform_project_shaped[OF unif nr] rows
  have lens: "\<forall>c \<in> set (columns ?t). length (snd c) = length tm"
    by (simp add: uniform_def)
  have tcol: "getitem ?t ''time'' = Inr (date_cells tm)"
    by (rule getitem_output_plain[OF _ dist]) (simp_all add: ordered_columns_def map_of_split_time)
  have hcol: "getitem ?t ''hour'' = Inr (time_cells tm)"
    by (rule getitem_output_plain[OF _ dist]) (simp_all add: ordered_columns_def map_of_split_time)
  from valid_keys(4)[OF assms(1,2) u] have "''temperature_2m'' \<notin> fst ` set (scalars d)"
    by (simp add: scalar_fields_def)
  with fl assms(4) label_not_unit(4)
  have "map_of (columns df) ''temperature_2m'' = Some (as_column temps)"
    by (simp add: flattened_def)
  then have "map_of (columns (split_time df tm)) ''temperature_2m'' = Some (as_column temps)"
    by (simp add: map_of_split_time)
  then have "(''temperature_2m'', as_column temps) \<in> set (columns (split_time df tm))"
    by (rule map_of_SomeD)
  then have "(new_label ''temperature_2m'', as_column temps) \<in> set (columns (shaped df tm))"
    unfolding shaped_def rename_columns by force
  then have temp: "(''temperature'', as_column temps) \<in> set (columns ?t)"
    by (simp add: project_def set_projected new_label_eq ordered_columns_def)
  from tr rows lens tcol hcol temp show ?thesis
    by (simp add: date_cells_def time_cells_def)
qed

lemma read_time_example:
  "read_time (Str ''2024-01-01T00:00'') = Some (Timestamp (Date 2024 1 1) (Time 0 0 0))"
  "read_time (Str ''2024-01-01T01:00'') = Some (Timestamp (Date 2024 1 1) (Time 1 0 0))"
  by (simp_all add: read_time_def documented_format_def parse_with_def parse_date_def parse_time_def
      num4_def num2_def digit_def valid_date_def valid_time_def days_in_month_def leap_year_def)

lemma documented_example:
  "documented_time (Str ''2024-01-01T00:00'')" "documented_time (Str ''2024-01-01T01:00'')"
  by (simp_all add: documented_time_def read_time_example in_bounds_def ts_key_def)

lemma valid_example_response: "valid_response example_response"
  by (simp add: valid_response_def well_formed_def example_response_def example_hourly_def
      example_scalars_def example_units_def scalar_fields_def documented_example)

theorem transform_data_rows_witness:
  "valid_response example_response \<and>
   (\<exists>t. transform_data example_response = Inr t \<and> nrows t = 2 \<and>
      (\<forall>c \<in> set (columns t). length (snd c) = 2) \<and>
      getitem t ''time'' = Inr [DateCell (Date 2024 1 1), DateCell (Date 2024 1 1)] \<and>
      getitem t ''hour'' = Inr [TimeCell (Time 0 0 0), TimeCell (Time 1 0 0)] \<and>
      (''temperature'', [Value (Num (21 / 2)), Value (Num 11)]) \<in> set (columns t))"
proof -
  have h: "hourly example_response = Some example_hourly"
    by (simp add: example_response_def)
  have tm: "map_of example_hourly ''time'' = Some [Str ''2024-01-01T00:00'', Str ''2024-01-01T01:00'']"
    and temps: "map_of example_hourly ''temperature_2m'' = Some [Num (21 / 2), Num 11]"
    by (simp_all add: example_hourly_def)
  have col: "numeric (Num (21 / 2))" "numeric (Num 11)"
    "as_column [Num (21 / 2), Num 11] = [Value (Num (21 / 2)), Value (Num 11)]"
    by (simp_all add: numeric_def is_float_def as_column_floats)
  from transform_data_rows[OF valid_example_response h tm temps] valid_example_response
  show ?thesis
    by (simp add: read_time_example numeral_2_eq_2 col)
qed

lemma map_of_scalars:
  assumes fl: "flattened d h u n df" and f: "f \<in> set scalar_fields"
    and ks: "fst ` set (scalars d) = set scalar_fields" and ds: "distinct (map fst (scalars d))"
  shows "\<exists>v. map_of (scalars d) f = Some v \<and>
             map_of (columns (split_time df tm)) f = Some (replicate n (Value v))"
proof -
  from f ks obtain v where v: "(f, v) \<in> set (scalars d)" by force
  with ds have "map_of (scalars d) f = Some v" by simp
  moreover from fl v label_not_unit(5)[OF f]
  have "map_of (columns df) f = Some (replicate n (Value v))"
    unfolding flattened_def by blast
  moreover from f have "f \<noteq> ''time''" "f \<noteq> ''hour''"
    by (auto simp: scalar_fields_def)
  ultimately show ?thesis
    by (simp add: map_of_split_time)
qed

lemma map_of_unit:
  assumes fl: "flattened d h u n df" and k: "map_of u k = Some v"
  shows "map_of (columns (split_time df tm)) (unit_label k) = Some (replicate n (Value v))"
proof -
  from k have "(k, v) \<in> set u" by (rule map_of_SomeD)
  with fl have "map_of (columns df) (unit_label k) = Some (replicate n (Value v))"
    unfolding flattened_def by blast
  moreover have "unit_label k \<noteq> ''time''" "unit_label k \<noteq> ''hour''"
    using unit_label_suffix[of k "''time''"] unit_label_suffix[of k "''hour''"] by auto
  ultimately show ?thesis
    by (simp add: map_of_split_time)
qed

lemma temperature_unit_fresh:
  assumes fl: "flattened d h u n df" and ks: "fst ` set (scalars d) = set scalar_fields"
    and "''temperature_unit'' \<notin> fst ` set h" and "''temperature'' \<notin> fst ` set u"
  shows "''temperature_unit'' \<notin> set (names (split_time df tm))"
proof -
  have "''temperature_unit'' \<notin> unit_label ` fst ` set u"
  proof
    assume "''temperature_unit'' \<in> unit_label ` fst ` set u"
    then obtain k where k: "k \<in> fst ` set u" and "''temperature_unit'' = unit_label k"
      by (rule imageE)
    then have "k = ''temperature''" by (simp add: unit_label_def)
    with k assms(4) show False by simp
  qed
  with assms(3) ks show ?thesis
    by (simp add: names_flattened[OF fl] scalar_fields_def)
qed

lemma temperature_fresh:
  assumes fl: "flattened d h u n df" and ks: "fst ` set (scalars d) = set scalar_fields"
    and "''temperature'' \<notin> fst ` set h"
  shows "''temperature'' \<notin> set (names (split_time df tm))"
proof -
  from ks have "''temperature'' \<notin> fst ` set (scalars d)"
    by (simp add: scalar_fields_def)
  moreover from label_not_unit(3) have "''temperature'' \<notin> unit_label ` fst ` set u"
    by blast
  ultimately show ?thesis
    using assms(3) by (simp add: names_flattened[OF fl])
qed

lemma getitem_temperature_unit:
  assumes fl: "flattened d h u n df" and ks: "fst ` set (scalars d) = set scalar_fields"
    and "''temperature_unit'' \<notin> fst ` set h" and "''temperature'' \<notin> fst ` set u"
    and unit: "map_of u ''temperature_2m'' = Some v"
  shows "getitem (project (shaped df tm) ordered_columns) ''temperature_unit''
         = Inr (replicate n (Value v))"
proof (rule getitem_output_renamed[where old = "''temperature_2m_unit''"])
  show "''temperature_unit'' \<in> set ordered_columns"
    by (simp add: ordered_columns_def)
  from fl show "distinct (names df)"
    by (simp add: flattened_def)
  show "new_label ''temperature_2m_unit'' = ''temperature_unit''"
    by (simp add: new_label_eq)
  show "''temperature_unit'' \<notin> set (names (split_time df tm))"
    by (rule temperature_unit_fresh[OF fl ks assms(3,4)])
  show "k = ''temperature_2m_unit'' \<or> k = ''temperature_unit''"
    if "new_label k = ''temperature_unit''" for k
    using that by (simp add: new_label_eq split: if_splits)
  from map_of_unit[OF fl unit, of tm]
  show "map_of (columns (split_time df tm)) ''temperature_2m_unit'' = Some (replicate n (Value v))"
    by (simp add: unit_label_def)
qed

lemma getitem_temperature:
  assumes fl: "flattened d h u n df" and ks: "fst ` set (scalars d) = set scalar_fields"
    and "''temperature'' \<notin> fst ` set h"
    and temps: "map_of h ''temperature_2m'' = Some temps"
  shows "getitem (project (shaped df tm) ordered_columns) ''temperature'' = Inr (as_column temps)"
proof (rule getitem_output_renamed[where old = "''temperature_2m''"])
  show "''temperature'' \<in> set ordered_columns"
    by (simp add: ordered_columns_def)
  from fl show "distinct (names df)"
    by (simp add: flattened_def)
  show "new_label ''temperature_2m'' = ''temperature''"
    by (simp add: new_label_eq)
  show "''temperature'' \<notin> set (names (split_time df tm))"
    by (rule temperature_fresh[OF fl ks assms(3)])
  show "k = ''temperature_2m'' \<or> k = ''temperature''" if "new_label k = ''temperature''" for k
    using that by (simp add: new_label_eq split: if_splits)
  from ks have "''temperature_2m'' \<notin> fst ` set (scalars d)"
    by (simp add: scalar_fields_def)
  with fl temps label_not_unit(4)
  have "map_of (columns df) ''temperature_2m'' = Some (as_column temps)"
    by (simp add: flattened_def)
  then show "map_of (columns (split_time df tm)) ''temperature_2m'' = Some (as_column temps)"
    by (simp add: map_of_split_time)
qed

lemma getitem_scalar_field:
  assumes fl: "flattened d h u n df" and f: "f \<in> set scalar_fields"
    and ks: "fst ` set (scalars d) = set scalar_fields" and ds: "distinct (map fst (scalars d))"
  shows "\<exists>v. map_of (scalars d) f = Some v \<and>
    getitem (project (shaped df tm) ordered_columns) f = Inr (replicate n (Value v))"
proof -
  from map_of_scalars[OF fl f ks ds, of tm] obtain v where v: "map_of (scalars d) f = Some v"
    and col: "map_of (columns (split_time df tm)) f = Some (replicate n (Value v))"
    by blast
  have "getitem (project (shaped df tm) ordered_columns) f = Inr (replicate n (Value v))"
  proof (rule getitem_output_plain[OF _ _ _ col])
    from f show "f \<in> set ordered_columns"
      by (auto simp: ordered_columns_def scalar_fields_def)
    from fl show "distinct (names df)"
      by (simp add: flattened_def)
    from f show "f \<notin> {''temperature'', ''temperature_unit'', ''temperature_2m'', ''temperature_2m_unit''}"
      by (auto simp: scalar_fields_def)
  qed
  with v show ?thesis by blast
qed

lemma getitem_time_unit:
  assumes fl: "flattened d h u n df" and unit: "map_of u ''time'' = Some v"
  shows "getitem (project (shaped df tm) ordered_columns) ''time_unit'' = Inr (replicate n (Value v))"
proof (rule getitem_output_plain)
  show "''time_unit'' \<in> set ordered_columns"
    by (simp add: ordered_columns_def)
  from fl show "distinct (names df)"
    by (simp add: flattened_def)
  show "''time_unit'' \<notin> {''temperature'', ''temperature_unit'', ''temperature_2m'', ''temperature_2m_unit''}"
    by simp
  from map_of_unit[OF fl unit, of tm]
  show "map_of (columns (split_time df tm)) ''time_unit'' = Some (replicate n (Value v))"
    by (simp add: unit_label_def)
qed

lemma unique_plain:
  assumes "distinct (names df)"
    and "l \<notin> {''temperature'', ''temperature_unit'', ''temperature_2m'', ''temperature_2m_unit''}"
    and "map_of (columns (split_time df tm)) l = Some v"
  shows "filter (\<lambda>c. fst c = l) (columns (shaped df tm)) = [(l, v)]"
  using assms(3) by (simp add: filter_shaped_plain[OF assms(2)] filter_split_time[OF assms(1)])

lemma unique_renamed:
  assumes "distinct (names df)"
    and "new_label old = new" and "new \<notin> set (names (split_time df tm))"
    and "\<And>k. new_label k = new \<Longrightarrow> k = old \<or> k = new"
    and "map_of (columns (split_time df tm)) old = Some v"
  shows "filter (\<lambda>c. fst c = new) (columns (shaped df tm)) = [(new, v)]"
  using assms(5) by (simp add: filter_shaped_renamed[OF assms(2,3,4)] filter_split_time[OF assms(1)])

lemma names_project:
  "set (names (project df ls)) = set ls \<inter> set (names df)"
  by (auto simp: names_def project_def)

lemma names_output_exact:
  assumes v: "valid_response d" and h: "hourly d = Some h" and u: "hourly_units d = Some u"
    and fl: "flattened d h u n df"
    and c1: "''temperature'' \<notin> fst ` set h" and c2: "''temperature_unit'' \<notin> fst ` set h"
  shows "names (project (shaped df tm) ordered_columns) = ordered_columns"
proof -
  note ks = valid_keys[OF v h u]
  from v h u have ds: "distinct (map fst (scalars d))" and du: "distinct (map fst u)"
    and sub: "set (map fst u) \<subseteq> set (map fst h)"
    by (simp_all add: valid_response_def well_formed_def)
  from fl have dist: "distinct (names df)"
    by (simp add: flattened_def)
  from c1 sub have c3: "''temperature'' \<notin> fst ` set u" by auto
  from ks(1) obtain temps where temps: "map_of h ''temperature_2m'' = Some temps"
    by (auto simp: image_iff dest: weak_map_of_SomeI)
  from ks(2) obtain tu where tu: "map_of u ''time'' = Some tu"
    by (auto simp: image_iff dest: weak_map_of_SomeI)
  from ks(3) obtain cu where cu: "map_of u ''temperature_2m'' = Some cu"
    by (auto simp: image_iff dest: weak_map_of_SomeI)
  let ?cs = "columns (shaped df tm)"
  have c_time: "\<exists>w. filter (\<lambda>c. fst c = ''time'') ?cs = [(''time'', w)]"
    by (rule exI, rule unique_plain[OF dist]) (simp_all add: map_of_split_time)
  have c_hour: "\<exists>w. filter (\<lambda>c. fst c = ''hour'') ?cs = [(''hour'', w)]"
    by (rule exI, rule unique_plain[OF dist]) (simp_all add: map_of_split_time)
  have c_temp: "\<exists>w. filter (\<lambda>c. fst c = ''temperature'') ?cs = [(''temperature'', w)]"
  proof (rule exI, rule unique_renamed[OF dist, where old = "''temperature_2m''"])
    show "new_label ''temperature_2m'' = ''temperature''"
      by (simp add: new_label_eq)
    show "''temperature'' \<notin> set (names (split_time df tm))"
      by (rule temperature_fresh[OF fl ks(4) c1])
    show "k = ''temperature_2m'' \<or> k = ''temperature''" if "new_label k = ''temperature''" for k
      using that by (simp add: new_label_eq split: if_splits)
    from ks(4) have "''temperature_2m'' \<notin> fst ` set (scalars d)"
      by (simp add: scalar_fields_def)
    with fl temps label_not_unit(4)
    have "map_of (columns df) ''temperature_2m'' = Some (as_column temps)"
      by (simp add: flattened_def)
    then show "map_of (columns (split_time df tm)) ''temperature_2m'' = Some (as_column temps)"
      by (simp add: map_of_split_time)
  qed
  have c_scalar: "\<forall>l \<in> set scalar_fields. \<exists>w. filter (\<lambda>c. fst c = l) ?cs = [(l, w)]"
  proof
    fix l assume l: "l \<in> set scalar_fields"
    from map_of_scalars[OF fl l ks(4) ds, of tm] obtain w
      where w: "map_of (columns (split_time df tm)) l = Some (replicate n (Value w))"
      by blast
    from l have "l \<notin> {''temperature'', ''temperature_unit'', ''temperature_2m'', ''temperature_2m_unit''}"
      by (auto simp: scalar_fields_def)
    from unique_plain[OF dist this w] show "\<exists>w. filter (\<lambda>c. fst c = l) ?cs = [(l, w)]" by blast
  qed
  have c_tunit: "\<exists>w. filter (\<lambda>c. fst c = ''time_unit'') ?cs = [(''time_unit'', w)]"
  proof -
    from map_of_unit[OF fl tu, of tm]
    have "map_of (columns (split_time df tm)) ''time_unit'' = Some (replicate n (Value tu))"
      by (simp add: unit_label_def)
    from unique_plain[OF dist _ this] show ?thesis by simp
  qed
  have c_unit: "\<exists>w. filter (\<lambda>c. fst c = ''temperature_unit'') ?cs = [(''temperature_unit'', w)]"
  proof (rule exI, rule unique_renamed[OF dist, where old = "''temperature_2m_unit''"])
    show "new_label ''temperature_2m_unit'' = ''temperature_unit''"
      by (simp add: new_label_eq)
    show "''temperature_unit'' \<notin> set (names (split_time df tm))"
      by (rule temperature_unit_fresh[OF fl ks(4) c2 c3])
    show "k = ''temperature_2m_unit'' \<or> k = ''temperature_unit''"
      if "new_label k = ''temperature_unit''" for k
      using that by (simp add: new_label_eq split: if_splits)
    from map_of_unit[OF fl cu, of tm]
    show "map_of (columns (split_time df tm)) ''temperature_2m_unit'' = Some (replicate n (Value cu))"
      by (simp add: unit_label_def)
  qed
  from c_time c_hour c_temp c_scalar c_tunit c_unit
  have "\<forall>l \<in> set ordered_columns. \<exists>w. filter (\<lambda>c. fst c = l) ?cs = [(l, w)]"
    by (simp add: ordered_columns_def scalar_fields_def)
  then have one: "\<exists>w. filter (\<lambda>c. fst c = l) ?cs = [(l, w)]" if "l \<in> set ordered_columns" for l
    using that by blast
  show ?thesis
    unfolding names_def project_def using names_projected[of ordered_columns ?cs, OF one]
    by simp
qed

text \<open>
  Claim C2, amended. For a valid response, every row of the result carries the seven
  top-level scalars under their own labels and \<^verbatim>\<open>hourly_units.time\<close> under
  \<^verbatim>\<open>time_unit\<close>. The column \<^verbatim>\<open>temperature_unit\<close> carries
  \<^verbatim>\<open>hourly_units.temperature_2m\<close> on every row provided no hourly field is named
  \<^verbatim>\<open>temperature_unit\<close> and no unit is given for a field named \<^verbatim>\<open>temperature\<close>.
\<close>

theorem broadcast_columns:
  assumes "valid_response d" and "hourly d = Some h" and "hourly_units d = Some u"
    and "map_of h ''time'' = Some tm"
  shows "\<exists>t. transform_data d = Inr t \<and>
     (\<forall>f \<in> set scalar_fields. \<exists>v. map_of (scalars d) f = Some v \<and>
        getitem t f = Inr (replicate (length tm) (Value v))) \<and>
     (\<exists>v. map_of u ''time'' = Some v \<and>
        getitem t ''time_unit'' = Inr (replicate (length tm) (Value v))) \<and>
     (''temperature_unit'' \<notin> fst ` set h \<longrightarrow> ''temperature'' \<notin> fst ` set u \<longrightarrow>
        (\<exists>v. map_of u ''temperature_2m'' = Some v \<and>
           getitem t ''temperature_unit'' = Inr (replicate (length tm) (Value v))))"
proof -
  from transform_valid[OF assms] obtain df
    where fl: "flattened d h u (length tm) df"
      and tr: "transform_data d = Inr (project (shaped df tm) ordered_columns)"
    by blast
  note ks = valid_keys[OF assms(1,2,3)]
  from assms(1) have ds: "distinct (map fst (scalars d))"
    by (auto simp: valid_response_def well_formed_def split: option.splits)
  from ks(2) obtain tu where tu: "map_of u ''time'' = Some tu"
    by (auto simp: image_iff dest: weak_map_of_SomeI)
  from ks(3) obtain cu where cu: "map_of u ''temperature_2m'' = Some cu"
    by (auto simp: image_iff dest: weak_map_of_SomeI)
  let ?t = "project (shaped df tm) ordered_columns"
  have "\<forall>f \<in> set scalar_fields. \<exists>v. map_of (scalars d) f = Some v \<and>
        getitem ?t f = Inr (replicate (length tm) (Value v))"
    using getitem_scalar_field[OF fl _ ks(4) ds] by blast
  moreover have "getitem ?t ''time_unit'' = Inr (replicate (length tm) (Value tu))"
    by (rule getitem_time_unit[OF fl tu])
  moreover have "getitem ?t ''temperature_unit'' = Inr (replicate (length tm) (Value cu))"
    if "''temperature_unit'' \<notin> fst ` set h" "''temperature'' \<notin> fst ` set u"
    by (rule getitem_temperature_unit[OF fl ks(4) that cu])
  ultimately show ?thesis
    using tr tu cu by auto
qed

text \<open>
  Claim C3, amended. For a valid response the labels of the result are among the twelve
  of \<^verbatim>\<open>ordered_columns\<close> and each of the twelve occurs; every other column of the
  flattened frame is dropped. When no hourly field is named \<^verbatim>\<open>temperature\<close> or
  \<^verbatim>\<open>temperature_unit\<close>, the labels of the result are exactly the ordered list of twelve.
\<close>

theorem output_columns:
  assumes "valid_response d" and "hourly d = Some h" and "map_of h ''time'' = Some tm"
  shows "\<exists>t. transform_data d = Inr t \<and> set (names t) = set ordered_columns \<and>
     (''temperature'' \<notin> fst ` set h \<longrightarrow> ''temperature_unit'' \<notin> fst ` set h \<longrightarrow>
        names t = ordered_columns)"
proof -
  from assms(1,2) obtain u where u: "hourly_units d = Some u"
    by (auto simp: valid_response_def split: option.splits)
  from transform_valid[OF assms(1,2) u assms(3)] obtain df
    where fl: "flattened d h u (length tm) df"
      and tr: "transform_data d = Inr (project (shaped df tm) ordered_columns)"
    by blast
  let ?t = "project (shaped df tm) ordered_columns"
  from ordered_present[OF assms(1,2) u fl, of tm]
  have "set (names ?t) = set ordered_columns"
    unfolding names_project by blast
  moreover have "names ?t = ordered_columns"
    if "''temperature'' \<notin> fst ` set h" "''temperature_unit'' \<notin> fst ` set h"
    by (rule names_output_exact[OF assms(1,2) u fl that])
  ultimately show ?thesis
    using tr by blast
qed

text \<open>
  Claim C5, amended. For a valid response with no hourly field named \<^verbatim>\<open>temperature\<close>,
  the column \<^verbatim>\<open>temperature\<close> of the result is the column pandas makes of the array
  \<^verbatim>\<open>hourly.temperature_2m\<close> when its entries are floats, \<^verbatim>\<open>int64\<close> integers or \<^verbatim>\<open>None\<close>:
  entry by entry, with every integer converted to the nearest double and every \<^verbatim>\<open>None\<close>
  turned into \<^verbatim>\<open>NaN\<close> if the array has a number and has a float or a \<^verbatim>\<open>None\<close>, and
  unchanged otherwise. It is the array itself, entry by entry and unchanged, when the
  entries are all floats or all \<^verbatim>\<open>int64\<close> integers. With no hourly field named
  \<^verbatim>\<open>temperature_unit\<close> and no unit for a field named \<^verbatim>\<open>temperature\<close>, the column
  \<^verbatim>\<open>temperature_unit\<close> holds \<^verbatim>\<open>hourly_units.temperature_2m\<close>.
\<close>

theorem temperature_renamed:
  assumes "valid_response d" and "hourly d = Some h" and "hourly_units d = Some u"
    and "map_of h ''time'' = Some tm"
    and "map_of h ''temperature_2m'' = Some temps" and "map_of u ''temperature_2m'' = Some unit"
  shows "\<exists>t. transform_data d = Inr t \<and>
     (''temperature'' \<notin> fst ` set h \<longrightarrow> list_all numeric temps \<longrightarrow>
        getitem t ''temperature'' = Inr (as_column temps)) \<and>
     (''temperature'' \<notin> fst ` set h \<longrightarrow> list_all is_float temps \<or> list_all is_int64 temps \<longrightarrow>
        getitem t ''temperature'' = Inr (map Value temps)) \<and>
     (''temperature_unit'' \<notin> fst ` set h \<longrightarrow> ''temperature'' \<notin> fst ` set u \<longrightarrow>
        getitem t ''temperature_unit'' = Inr (replicate (length tm) (Value unit)))"
proof -
  from transform_valid[OF assms(1,2,3,4)] obtain df
    where fl: "flattened d h u (length tm) df"
      and tr: "transform_data d = Inr (project (shaped df tm) ordered_columns)"
    by blast
  note ks = valid_keys[OF assms(1,2,3)]
  let ?t = "project (shaped df tm) ordered_columns"
  have col: "getitem ?t ''temperature'' = Inr (as_column temps)" if "''temperature'' \<notin> fst ` set h"
    by (rule getitem_temperature[OF fl ks(4) that assms(5)])
  have same: "getitem ?t ''temperature'' = Inr (map Value temps)"
    if "''temperature'' \<notin> fst ` set h" "list_all is_float temps \<or> list_all is_int64 temps"
    using col[OF that(1)] that(2) by (auto simp: as_column_floats as_column_int64)
  have unit: "getitem ?t ''temperature_unit'' = Inr (replicate (length tm) (Value unit))"
    if "''temperature_unit'' \<notin> fst ` set h" "''temperature'' \<notin> fst ` set u"
    by (rule getitem_temperature_unit[OF fl ks(4) that assms(6)])
  from col same unit show ?thesis
    using tr by blast
qed

subsection \<open>The documents of the examples\<close>

lemma as_column_examples:
  "as_column [] = []"
  "as_column [Str s] = [Value (Str s)]"
  "as_column [Str s, Str s'] = [Value (Str s), Value (Str s')]"
  "as_column [Num r] = [Value (Num r)]"
  "as_column [Null, Num r] = [NaN, Value (Num r)]"
  by (simp_all add: as_column_def float_column_def numeric_def is_float_def is_int64_def
      to_float64_def)

lemma bit_length_numeral:
  "bit_length 0 = 0"
  "bit_length 1 = 1"
  "bit_length (numeral k) = Suc (bit_length (numeral k div 2))"
  by (simp_all add: bit_length.simps[of 0] bit_length.simps[of 1] bit_length.simps[of "numeral k"])

text \<open>
  An integer of 54 bits beside a float: \<open>2 ^ 53 + 1\<close> lies half way between two doubles
  and goes to the even one.
\<close>

lemma nearest_double_example: "nearest_double 9007199254740993 = 9007199254740992"
  by (simp add: nearest_double_def bit_length_numeral Let_def)

lemma as_column_rounded:
  "as_column [Integer 9007199254740993, Num (1 / 2)] =
     [Value (Num 9007199254740992), Value (Num (1 / 2))]"
  by (simp add: as_column_def float_column_def numeric_def is_float_def is_int64_def to_float64_def
      nearest_double_example)

lemma read_time_midnight:
  "read_time (Str ''2024-01-01T00:00'') = Some (Timestamp (Date 2024 1 1) (Time 0 0 0))"
  by (simp add: read_time_def documented_format_def parse_with_def parse_date_def parse_time_def
      num4_def num2_def digit_def valid_date_def valid_time_def days_in_month_def leap_year_def)

lemma documented_midnight: "documented_time (Str ''2024-01-01T00:00'')"
  by (simp add: documented_time_def read_time_midnight in_bounds_def ts_key_def)

lemma cells_midnight:
  "stamp_cells [Str ''2024-01-01T00:00''] = [TimestampCell (Timestamp (Date 2024 1 1) (Time 0 0 0))]"
  "date_cells [Str ''2024-01-01T00:00''] = [DateCell (Date 2024 1 1)]"
  "time_cells [Str ''2024-01-01T00:00''] = [TimeCell (Time 0 0 0)]"
  by (simp_all add: stamp_cells_def date_cells_def time_cells_def read_time_midnight)

lemma example_facts:
  "hourly example_response = Some example_hourly"
  "hourly_units example_response = Some example_units"
  "map_of example_hourly ''time'' = Some [Str ''2024-01-01T00:00'', Str ''2024-01-01T01:00'']"
  "map_of example_hourly ''temperature_2m'' = Some [Num (21 / 2), Num 11]"
  "''temperature'' \<notin> fst ` set example_hourly"
  "''temperature_unit'' \<notin> fst ` set example_hourly"
  "map_of example_units ''temperature_2m'' = Some (Str ''degC'')"
  "''temperature'' \<notin> fst ` set example_units"
  by (simp_all add: example_response_def example_hourly_def example_units_def)

lemma flatten_unit_clash:
  "flatten_hourly_data unit_clash_response =
     Inr \<lparr>nrows = 1,
          columns =
            [(''time'', [Value (Str ''2024-01-01T00:00'')]),
             (''temperature_2m'', [Value (Num 11)]),
             (''temperature_unit'', [Value (Str ''K'')]),
             (''latitude'', [Value (Num 4)]),
             (''longitude'', [Value (Num (- 10))]),
             (''generationtime_ms'', [Value (Num (1 / 2))]),
             (''utc_offset_seconds'', [Value (Num 0)]),
             (''timezone'', [Value (Str ''UTC'')]),
             (''timezone_abbreviation'', [Value (Str ''UTC'')]),
             (''elevation'', [Value (Num 0)]),
             (''time_unit'', [Value (Str ''iso8601'')]),
             (''temperature_2m_unit'', [Value (Str ''degC'')])]\<rparr>"
  apply (simp add: flatten_hourly_data_def unit_clash_response_def example_scalars_def
      example_units_def DataFrame_def as_column_examples)
  apply (simp add: setitem_scalar_def setitem_def names_def)
  done

lemma valid_unit_clash: "valid_response unit_clash_response"
  by (simp add: valid_response_def well_formed_def unit_clash_response_def example_scalars_def
      example_units_def scalar_fields_def documented_midnight)

lemma flatten_label_clash:
  "flatten_hourly_data label_clash_response =
     Inr \<lparr>nrows = 1,
          columns =
            [(''time'', [Value (Str ''2024-01-01T00:00'')]),
             (''temperature_2m'', [Value (Num 11)]),
             (''temperature'', [Value (Num 284)]),
             (''latitude'', [Value (Num 4)]),
             (''longitude'', [Value (Num (- 10))]),
             (''generationtime_ms'', [Value (Num (1 / 2))]),
             (''utc_offset_seconds'', [Value (Num 0)]),
             (''timezone'', [Value (Str ''UTC'')]),
             (''timezone_abbreviation'', [Value (Str ''UTC'')]),
             (''elevation'', [Value (Num 0)]),
             (''time_unit'', [Value (Str ''iso8601'')]),
             (''temperature_2m_unit'', [Value (Str ''degC'')])]\<rparr>"
  apply (simp add: flatten_hourly_data_def label_clash_response_def example_scalars_def
      example_units_def DataFrame_def as_column_examples)
  apply (simp add: setitem_scalar_def setitem_def names_def)
  done

lemma valid_label_clash: "valid_response label_clash_response"
  by (simp add: valid_response_def well_formed_def label_clash_response_def example_scalars_def
      example_units_def scalar_fields_def documented_midnight)

lemma flatten_double_clash:
  "flatten_hourly_data double_clash_response =
     Inr \<lparr>nrows = 1,
          columns =
            [(''time'', [Value (Str ''2024-01-01T00:00'')]),
             (''temperature'', [Value (Num 284)]),
             (''temperature_2m'', [Value (Num 11)]),
             (''latitude'', [Value (Num 4)]),
             (''longitude'', [Value (Num (- 10))]),
             (''generationtime_ms'', [Value (Num (1 / 2))]),
             (''utc_offset_seconds'', [Value (Num 0)]),
             (''timezone'', [Value (Str ''UTC'')]),
             (''timezone_abbreviation'', [Value (Str ''UTC'')]),
             (''elevation'', [Value (Num 0)]),
             (''time_unit'', [Value (Str ''iso8601'')]),
             (''temperature_unit'', [Value (Str ''K'')]),
             (''temperature_2m_unit'', [Value (Str ''degC'')])]\<rparr>"
  apply (simp add: flatten_hourly_data_def double_clash_response_def example_scalars_def
      example_units_def DataFrame_def as_column_examples)
  apply (simp add: setitem_scalar_def setitem_def names_def)
  done

lemma valid_double_clash: "valid_response double_clash_response"
  by (simp add: valid_response_def well_formed_def double_clash_response_def example_scalars_def
      example_units_def scalar_fields_def documented_midnight)

subsection \<open>Broadcast columns, column list, renaming: witnesses and counterexamples\<close>

theorem broadcast_columns_witness:
  "valid_response example_response \<and>
   (\<exists>t. transform_data example_response = Inr t \<and>
      (\<forall>f \<in> set scalar_fields. \<exists>v. map_of (scalars example_response) f = Some v \<and>
         getitem t f = Inr [Value v, Value v]) \<and>
      getitem t ''time_unit'' = Inr [Value (Str ''iso8601''), Value (Str ''iso8601'')] \<and>
      getitem t ''temperature_unit'' = Inr [Value (Str ''degC''), Value (Str ''degC'')])"
  using broadcast_columns[OF valid_example_response example_facts(1,2,3)] example_facts(6,8)
    valid_example_response
  by (simp add: numeral_2_eq_2 example_units_def)

theorem broadcast_columns_counterexample:
  "valid_response unit_clash_response \<and>
   transform_data unit_clash_response =
     Inr \<lparr>nrows = 1,
          columns =
            [(''time'', [DateCell (Date 2024 1 1)]),
             (''hour'', [TimeCell (Time 0 0 0)]),
             (''temperature'', [Value (Num 11)]),
             (''latitude'', [Value (Num 4)]),
             (''longitude'', [Value (Num (- 10))]),
             (''generationtime_ms'', [Value (Num (1 / 2))]),
             (''utc_offset_seconds'', [Value (Num 0)]),
             (''timezone'', [Value (Str ''UTC'')]),
             (''timezone_abbreviation'', [Value (Str ''UTC'')]),
             (''elevation'', [Value (Num 0)]),
             (''time_unit'', [Value (Str ''iso8601'')]),
             (''temperature_unit'', [Value (Str ''K'')]),
             (''temperature_unit'', [Value (Str ''degC'')])]\<rparr>"
  apply (rule conjI)
   apply (rule valid_unit_clash)
  apply (subst transform_data_split[OF flatten_unit_clash, where tm = "[Str ''2024-01-01T00:00'']"])
     apply (simp add: names_def)
    apply simp
   apply (simp add: documented_midnight)
  apply (simp add: split_time_def cells_midnight setitem_def names_def)
  apply (simp add: rename_def)
  apply (simp add: getitem_list_def names_def ordered_columns_def)
  done

theorem output_columns_witness:
  "valid_response example_response \<and>
   (\<exists>t. transform_data example_response = Inr t \<and> set (names t) = set ordered_columns \<and>
      names t = ordered_columns)"
  using output_columns[OF valid_example_response example_facts(1,3)] example_facts(5,6)
    valid_example_response
  by simp

theorem output_columns_counterexample:
  "valid_response label_clash_response \<and>
   transform_data label_clash_response =
     Inr \<lparr>nrows = 1,
          columns =
            [(''time'', [DateCell (Date 2024 1 1)]),
             (''hour'', [TimeCell (Time 0 0 0)]),
             (''temperature'', [Value (Num 11)]),
             (''temperature'', [Value (Num 284)]),
             (''latitude'', [Value (Num 4)]),
             (''longitude'', [Value (Num (- 10))]),
             (''generationtime_ms'', [Value (Num (1 / 2))]),
             (''utc_offset_seconds'', [Value (Num 0)]),
             (''timezone'', [Value (Str ''UTC'')]),
             (''timezone_abbreviation'', [Value (Str ''UTC'')]),
             (''elevation'', [Value (Num 0)]),
             (''time_unit'', [Value (Str ''iso8601'')]),
             (''temperature_unit'', [Value (Str ''degC'')])]\<rparr>"
  apply (rule conjI)
   apply (rule valid_label_clash)
  apply (subst transform_data_split[OF flatten_label_clash, where tm = "[Str ''2024-01-01T00:00'']"])
     apply (simp add: names_def)
    apply simp
   apply (simp add: documented_midnight)
  apply (simp add: split_time_def cells_midnight setitem_def names_def)
  apply (simp add: rename_def)
  apply (simp add: getitem_list_def names_def ordered_columns_def)
  done

theorem temperature_renamed_witness:
  "valid_response example_response \<and>
   (\<exists>t. transform_data example_response = Inr t \<and>
      getitem t ''temperature'' = Inr [Value (Num (21 / 2)), Value (Num 11)] \<and>
      getitem t ''temperature_unit'' = Inr [Value (Str ''degC''), Value (Str ''degC'')])"
  using temperature_renamed[OF valid_example_response example_facts(1,2,3,4,7)]
    example_facts(5,6,8) valid_example_response
  by (auto simp: numeral_2_eq_2 is_float_def)

lemma transform_double_clash:
  "transform_data double_clash_response =
     Inr \<lparr>nrows = 1,
          columns =
            [(''time'', [DateCell (Date 2024 1 1)]),
             (''hour'', [TimeCell (Time 0 0 0)]),
             (''temperature'', [Value (Num 284)]),
             (''temperature'', [Value (Num 11)]),
             (''latitude'', [Value (Num 4)]),
             (''longitude'', [Value (Num (- 10))]),
             (''generationtime_ms'', [Value (Num (1 / 2))]),
             (''utc_offset_seconds'', [Value (Num 0)]),
             (''timezone'', [Value (Str ''UTC'')]),
             (''timezone_abbreviation'', [Value (Str ''UTC'')]),
             (''elevation'', [Value (Num 0)]),
             (''time_unit'', [Value (Str ''iso8601'')]),
             (''temperature_unit'', [Value (Str ''K'')]),
             (''temperature_unit'', [Value (Str ''degC'')])]\<rparr>"
  apply (subst transform_data_split[OF flatten_double_clash, where tm = "[Str ''2024-01-01T00:00'']"])
     apply (simp add: names_def)
    apply simp
   apply (simp add: documented_midnight)
  apply (simp add: split_time_def cells_midnight setitem_def names_def)
  apply (simp add: rename_def)
  apply (simp add: getitem_list_def names_def ordered_columns_def)
  done

lemma flatten_missing_value:
  "flatten_hourly_data missing_value_response =
     Inr \<lparr>nrows = 2,
          columns =
            [(''time'', [Value (Str ''2024-01-01T00:00''), Value (Str ''2024-01-01T01:00'')]),
             (''temperature_2m'', [NaN, Value (Num (3 / 2))]),
             (''latitude'', [Value (Num 4), Value (Num 4)]),
             (''longitude'', [Value (Num (- 10)), Value (Num (- 10))]),
             (''generationtime_ms'', [Value (Num (1 / 2)), Value (Num (1 / 2))]),
             (''utc_offset_seconds'', [Value (Num 0), Value (Num 0)]),
             (''timezone'', [Value (Str ''UTC''), Value (Str ''UTC'')]),
             (''timezone_abbreviation'', [Value (Str ''UTC''), Value (Str ''UTC'')]),
             (''elevation'', [Value (Num 0), Value (Num 0)]),
             (''time_unit'', [Value (Str ''iso8601''), Value (Str ''iso8601'')]),
             (''temperature_2m_unit'', [Value (Str ''degC''), Value (Str ''degC'')])]\<rparr>"
  apply (simp add: flatten_hourly_data_def missing_value_response_def missing_value_hourly_def
      example_scalars_def example_units_def DataFrame_def as_column_examples)
  apply (simp add: setitem_scalar_def setitem_def names_def numeral_2_eq_2)
  done

lemma valid_missing_value: "valid_response missing_value_response"
  by (simp add: valid_response_def well_formed_def missing_value_response_def
      missing_value_hourly_def example_scalars_def example_units_def scalar_fields_def
      documented_example)

lemma cells_example:
  "stamp_cells [Str ''2024-01-01T00:00'', Str ''2024-01-01T01:00''] =
     [TimestampCell (Timestamp (Date 2024 1 1) (Time 0 0 0)),
      TimestampCell (Timestamp (Date 2024 1 1) (Time 1 0 0))]"
  "date_cells [Str ''2024-01-01T00:00'', Str ''2024-01-01T01:00''] =
     [DateCell (Date 2024 1 1), DateCell (Date 2024 1 1)]"
  "time_cells [Str ''2024-01-01T00:00'', Str ''2024-01-01T01:00''] =
     [TimeCell (Time 0 0 0), TimeCell (Time 1 0 0)]"
  by (simp_all add: stamp_cells_def date_cells_def time_cells_def read_time_example)

lemma transform_missing_value:
  "transform_data missing_value_response =
     Inr \<lparr>nrows = 2,
          columns =
            [(''time'', [DateCell (Date 2024 1 1), DateCell (Date 2024 1 1)]),
             (''hour'', [TimeCell (Time 0 0 0), TimeCell (Time 1 0 0)]),
             (''temperature'', [NaN, Value (Num (3 / 2))]),
             (''latitude'', [Value (Num 4), Value (Num 4)]),
             (''longitude'', [Value (Num (- 10)), Value (Num (- 10))]),
             (''generationtime_ms'', [Value (Num (1 / 2)), Value (Num (1 / 2))]),
             (''utc_offset_seconds'', [Value (Num 0), Value (Num 0)]),
             (''timezone'', [Value (Str ''UTC''), Value (Str ''UTC'')]),
             (''timezone_abbreviation'', [Value (Str ''UTC''), Value (Str ''UTC'')]),
             (''elevation'', [Value (Num 0), Value (Num 0)]),
             (''time_unit'', [Value (Str ''iso8601''), Value (Str ''iso8601'')]),
             (''temperature_unit'', [Value (Str ''degC''), Value (Str ''degC'')])]\<rparr>"
  apply (subst transform_data_split[OF flatten_missing_value,
        where tm = "[Str ''2024-01-01T00:00'', Str ''2024-01-01T01:00'']"])
     apply (simp add: names_def)
    apply simp
   apply (simp add: documented_example)
  apply (simp add: split_time_def cells_example setitem_def names_def)
  apply (simp add: rename_def)
  apply (simp add: getitem_list_def names_def ordered_columns_def)
  done

theorem temperature_renamed_counterexample:
  "valid_response double_clash_response \<and>
   transform_data double_clash_response =
     Inr \<lparr>nrows = 1,
          columns =
            [(''time'', [DateCell (Date 2024 1 1)]),
             (''hour'', [TimeCell (Time 0 0 0)]),
             (''temperature'', [Value (Num 284)]),
             (''temperature'', [Value (Num 11)]),
             (''latitude'', [Value (Num 4)]),
             (''longitude'', [Value (Num (- 10))]),
             (''generationtime_ms'', [Value (Num (1 / 2))]),
             (''utc_offset_seconds'', [Value (Num 0)]),
             (''timezone'', [Value (Str ''UTC'')]),
             (''timezone_abbreviation'', [Value (Str ''UTC'')]),
             (''elevation'', [Value (Num 0)]),
             (''time_unit'', [Value (Str ''iso8601'')]),
             (''temperature_unit'', [Value (Str ''K'')]),
             (''temperature_unit'', [Value (Str ''degC'')])]\<rparr> \<and>
   valid_response missing_value_response \<and>
   hourly missing_value_response =
     Some [(''time'', [Str ''2024-01-01T00:00'', Str ''2024-01-01T01:00'']),
           (''temperature_2m'', [Null, Num (3 / 2)])] \<and>
   transform_data missing_value_response =
     Inr \<lparr>nrows = 2,
          columns =
            [(''time'', [DateCell (Date 2024 1 1), DateCell (Date 2024 1 1)]),
             (''hour'', [TimeCell (Time 0 0 0), TimeCell (Time 1 0 0)]),
             (''temperature'', [NaN, Value (Num (3 / 2))]),
             (''latitude'', [Value (Num 4), Value (Num 4)]),
             (''longitude'', [Value (Num (- 10)), Value (Num (- 10))]),
             (''generationtime_ms'', [Value (Num (1 / 2)), Value (Num (1 / 2))]),
             (''utc_offset_seconds'', [Value (Num 0), Value (Num 0)]),
             (''timezone'', [Value (Str ''UTC''), Value (Str ''UTC'')]),
             (''timezone_abbreviation'', [Value (Str ''UTC''), Value (Str ''UTC'')]),
             (''elevation'', [Value (Num 0), Value (Num 0)]),
             (''time_unit'', [Value (Str ''iso8601''), Value (Str ''iso8601'')]),
             (''temperature_unit'', [Value (Str ''degC''), Value (Str ''degC'')])]\<rparr>"
  apply (intro conjI)
      apply (rule valid_double_clash)
     apply (rule transform_double_clash)
    apply (rule valid_missing_value)
   apply (simp add: missing_value_response_def missing_value_hourly_def)
  apply (rule transform_missing_value)
  done

subsection \<open>Recombining date and time of day\<close>

lemma astype_str_temporal:
  "astype_str (DateCell d) = Inr (date_str d)" "astype_str (TimeCell t) = Inr (time_str t)"
  by (simp_all add: astype_str_def)

lemma astype_str_dates:
  "map_result astype_str (date_cells tm) = Inr (map (\<lambda>v. date_str (ts_date (the (read_time v)))) tm)"
  unfolding date_cells_def by (induction tm) (simp_all add: astype_str_temporal)

lemma astype_str_times:
  "map_result astype_str (time_cells tm) = Inr (map (\<lambda>v. time_str (ts_time (the (read_time v)))) tm)"
  unfolding time_cells_def by (induction tm) (simp_all add: astype_str_temporal)

lemma zip_recombined:
  "map (\<lambda>(a, b). Value (Str (a @ '' '' @ b)))
     (zip (map (\<lambda>v. date_str (ts_date (the (read_time v)))) tm)
          (map (\<lambda>v. time_str (ts_time (the (read_time v)))) tm))
   = map recombined tm"
  by (induction tm) (simp_all add: recombined_def)

lemma parse_recombined:
  assumes "documented_time v"
  shows "parse_cell recombined_format (recombined v) = Inr (TimestampCell (the (read_time v)))"
    and "\<exists>s. recombined v = Value (Str s) \<and> guess_format s = Some recombined_format"
proof -
  from documented_timeD[OF assms] obtain s ts where v: "v = Str s"
    and p: "parse_with documented_format s = Some ts" and b: "in_bounds ts"
    and r: "read_time v = Some ts"
    by blast
  from recombine_roundtrip[OF p] b r
  show "parse_cell recombined_format (recombined v) = Inr (TimestampCell (the (read_time v)))"
    by (simp add: recombined_def parse_cell_Str)
  from recombine_roundtrip(2)[OF p] r
  show "\<exists>s. recombined v = Value (Str s) \<and> guess_format s = Some recombined_format"
    by (simp add: recombined_def)
qed

lemma parse_cells_recombined:
  "list_all documented_time tm \<Longrightarrow>
   map_result (parse_cell recombined_format) (map recombined tm) = Inr (stamp_cells tm)"
proof (induction tm)
  case Nil
  then show ?case by (simp add: stamp_cells_def)
next
  case (Cons v tm)
  then have "parse_cell recombined_format (recombined v) = Inr (TimestampCell (the (read_time v)))"
    and "map_result (parse_cell recombined_format) (map recombined tm) = Inr (stamp_cells tm)"
    by (simp_all add: parse_recombined(1))
  then show ?case
    by (simp add: stamp_cells_def)
qed

lemma to_datetime_recombined:
  assumes "list_all documented_time tm"
  shows "to_datetime (map recombined tm) = Inr (stamp_cells tm)"
proof (cases tm)
  case Nil
  then show ?thesis by (simp add: to_datetime_def stamp_cells_def)
next
  case (Cons v vs)
  with assms have "documented_time v" by simp
  from parse_recombined(2)[OF this] obtain s
    where "recombined v = Value (Str s)" "guess_format s = Some recombined_format"
    by blast
  with parse_cells_recombined[OF assms] Cons show ?thesis
    by (simp add: to_datetime_def)
qed

lemma datetime_column_split:
  assumes "getitem t ''time'' = Inr (date_cells tm)" and "getitem t ''hour'' = Inr (time_cells tm)"
    and "list_all documented_time tm"
  shows "datetime_column t = Inr (stamp_cells tm)"
  by (simp only: datetime_column_def assms(1,2) and_then_Inr astype_str_dates astype_str_times
      zip_recombined to_datetime_recombined[OF assms(3)])

lemma getitem_time_hour:
  assumes "distinct (names df)"
  shows "getitem (project (shaped df tm) ordered_columns) ''time'' = Inr (date_cells tm)"
    and "getitem (project (shaped df tm) ordered_columns) ''hour'' = Inr (time_cells tm)"
  by (rule getitem_output_plain[OF _ assms]; simp add: ordered_columns_def map_of_split_time)+

text \<open>
  Claim C4. For a valid response, joining the text of the date and the text of the time of
  day of each row of the result with a blank and reading it again, as line 94 does, gives
  for every row the time stamp that the corresponding entry of \<^verbatim>\<open>hourly.time\<close> denotes:
  the recombined column equals the column \<^verbatim>\<open>pd.to_datetime\<close> makes of the input entries.
\<close>

theorem recombination_roundtrip:
  assumes "valid_response d" and "hourly d = Some h" and "map_of h ''time'' = Some tm"
  shows "\<exists>t. transform_data d = Inr t \<and>
           datetime_column t = to_datetime (map Value tm) \<and>
           datetime_column t = Inr (map (\<lambda>v. TimestampCell (the (read_time v))) tm)"
proof -
  from assms(1,2) obtain u where u: "hourly_units d = Some u"
    by (auto simp: valid_response_def split: option.splits)
  from transform_valid[OF assms(1,2) u assms(3)] obtain df
    where fl: "flattened d h u (length tm) df"
      and tr: "transform_data d = Inr (project (shaped df tm) ordered_columns)"
    by blast
  from fl have dist: "distinct (names df)"
    by (simp add: flattened_def)
  from assms u have doc: "list_all documented_time tm"
    by (simp add: valid_response_def well_formed_def)
  have "datetime_column (project (shaped df tm) ordered_columns) = Inr (stamp_cells tm)"
    by (rule datetime_column_split[OF getitem_time_hour[OF dist] doc])
  with tr to_datetime_documented[OF doc] show ?thesis
    by (simp add: stamp_cells_def)
qed

theorem recombination_roundtrip_witness:
  "valid_response example_response \<and>
   (\<exists>t. transform_data example_response = Inr t \<and>
      datetime_column t = to_datetime [Value (Str ''2024-01-01T00:00''), Value (Str ''2024-01-01T01:00'')] \<and>
      datetime_column t = Inr [TimestampCell (Timestamp (Date 2024 1 1) (Time 0 0 0)),
                               TimestampCell (Timestamp (Date 2024 1 1) (Time 1 0 0))])"
  using recombination_roundtrip[OF valid_example_response example_facts(1,3)] valid_example_response
  by (simp add: read_time_example)

subsection \<open>Plotting a table without rows\<close>

lemma getitem_appended:
  assumes "k \<notin> set (names df)"
  shows "getitem (setitem df k c) k = Inr c"
proof -
  from assms have "filter (\<lambda>c. fst c = k) (columns df) = []"
    by (auto simp: names_def filter_empty_conv)
  with assms show ?thesis
    by (simp add: getitem_def setitem_def)
qed

lemma getitem_all_other:
  assumes "k \<notin> set (names df)" and "l \<noteq> k"
  shows "getitem_all (setitem df k c) l = getitem_all df l"
  using assms by (simp add: getitem_all_def setitem_def)

lemma getitem_all_present:
  assumes "l \<in> set (names df)"
  shows "\<exists>cols. getitem_all df l = Inr cols \<and> set cols \<subseteq> snd ` set (columns df)"
proof -
  let ?cols = "map snd (filter (\<lambda>c. fst c = l) (columns df))"
  from assms have "?cols \<noteq> []"
    by (auto simp: names_def filter_empty_conv)
  then have "getitem_all df l = Inr ?cols"
    by (simp add: getitem_all_def split: list.splits)
  moreover have "set ?cols \<subseteq> snd ` set (columns df)" by auto
  ultimately show ?thesis by blast
qed

lemma iloc0_no_rows:
  assumes "nrows df = 0" and "\<forall>c \<in> set cols. c = []"
  shows "iloc0 df cols = Inl IndexError"
  using assms by (auto simp: iloc0_def split: list.splits)

lemma plot_no_rows:
  assumes "nrows t = 0" and "uniform t" and "set (names t) = set ordered_columns"
    and "datetime_column t = Inr []"
  shows "plot_temperature t hours = Inl IndexError"
proof -
  let ?t = "setitem t ''datetime'' []"
  from assms(3) have fresh: "''datetime'' \<notin> set (names t)"
    by (simp add: ordered_columns_def)
  from assms(3) have "''temperature'' \<in> set (names t)" "''temperature_unit'' \<in> set (names t)"
    by (simp_all add: ordered_columns_def)
  from getitem_all_present[OF this(1)] getitem_all_present[OF this(2)]
  obtain y units where y: "getitem_all t ''temperature'' = Inr y"
    and units: "getitem_all t ''temperature_unit'' = Inr units"
    and sub: "set units \<subseteq> snd ` set (columns t)"
    by blast
  from sub assms(1,2) have "\<forall>c \<in> set units. c = []"
    by (auto simp: uniform_def)
  with assms(1) have "iloc0 ?t units = Inl IndexError"
    by (intro iloc0_no_rows) simp_all
  with y units assms(4) getitem_appended[OF fresh] show ?thesis
    by (simp add: plot_temperature_def Let_def getitem_all_other[OF fresh])
qed

text \<open>
  Claim C7, amended. For a valid response whose hourly arrays are all empty,
  \<^verbatim>\<open>transform_data\<close> returns a table without rows, and \<^verbatim>\<open>plot_temperature\<close> on that table
  fails with the \<^verbatim>\<open>IndexError\<close> of reading row 0 of \<^verbatim>\<open>temperature_unit\<close>, whatever the
  number of hours asked for.
\<close>

theorem plot_empty_table:
  assumes "valid_response d" and "hourly d = Some h" and "map_of h ''time'' = Some []"
  shows "\<exists>t. transform_data d = Inr t \<and> nrows t = 0 \<and> plot_temperature t hours = Inl IndexError"
proof -
  from assms(1,2) obtain u where u: "hourly_units d = Some u"
    by (auto simp: valid_response_def split: option.splits)
  from transform_valid[OF assms(1,2) u assms(3)] obtain df
    where fl: "flattened d h u (length ([] :: scalar list)) df"
      and tr: "transform_data d = Inr (project (shaped df []) ordered_columns)"
    by blast
  let ?t = "project (shaped df []) ordered_columns"
  from fl have dist: "distinct (names df)" and unif: "uniform df" and nr: "nrows df = 0"
    by (simp_all add: flattened_def)
  have rows: "nrows ?t = 0"
    by (simp add: nrows_project_shaped nr)
  from unif nr have ut: "uniform ?t"
    by (intro uniform_project_shaped) simp_all
  from ordered_present[OF assms(1,2) u fl, of "[]"]
  have nms: "set (names ?t) = set ordered_columns"
    unfolding names_project by blast
  have "datetime_column ?t = Inr (stamp_cells [])"
    by (rule datetime_column_split[OF getitem_time_hour[OF dist]]) simp
  then have "datetime_column ?t = Inr []"
    by (simp add: stamp_cells_def)
  from plot_no_rows[OF rows ut nms this] tr rows show ?thesis
    by blast
qed

lemma flatten_empty:
  "flatten_hourly_data empty_response =
     Inr \<lparr>nrows = 0,
          columns =
            [(''time'', []), (''temperature_2m'', []), (''latitude'', []),
             (''longitude'', []), (''generationtime_ms'', []), (''utc_offset_seconds'', []),
             (''timezone'', []), (''timezone_abbreviation'', []), (''elevation'', []),
             (''time_unit'', []), (''temperature_2m_unit'', [])]\<rparr>"
  apply (simp add: flatten_hourly_data_def empty_response_def example_scalars_def
      example_units_def DataFrame_def as_column_examples)
  apply (simp add: setitem_scalar_def setitem_def names_def)
  done

lemma valid_empty: "valid_response empty_response"
  by (simp add: valid_response_def well_formed_def empty_response_def example_scalars_def
      example_units_def scalar_fields_def)

lemma transform_empty: "transform_data empty_response = Inr empty_table"
  apply (subst transform_data_split[OF flatten_empty, where tm = "[]"])
     apply (simp add: names_def)
    apply simp
   apply simp
  apply (simp add: split_time_def stamp_cells_def date_cells_def time_cells_def setitem_def names_def)
  apply (simp add: rename_def)
  apply (simp add: getitem_list_def names_def ordered_columns_def empty_table_def)
  done

theorem plot_empty_table_witness:
  "valid_response empty_response \<and> transform_data empty_response = Inr empty_table \<and>
   nrows empty_table = 0 \<and> plot_temperature empty_table 24 = Inl IndexError"
proof -
  have h: "hourly empty_response = Some [(''time'', []), (''temperature_2m'', [])]"
    by (simp add: empty_response_def)
  have tm: "map_of [(''time'', []), (''temperature_2m'', [] :: scalar list)] ''time'' = Some []"
    by simp
  from plot_empty_table[OF valid_empty h tm, of 24] valid_empty show ?thesis
    by (simp add: transform_empty)
qed

theorem plot_empty_table_counterexample:
  "valid_response empty_response \<and> transform_data empty_response = Inr empty_table \<and>
   plot_temperature empty_table 24 = Inl IndexError \<and>
   plot_temperature empty_table 24 \<noteq> Inl EmptyDataError"
proof -
  have "datetime_column empty_table = Inr []"
    by (simp add: datetime_column_def getitem_def empty_table_def to_datetime_def)
  moreover have "setitem empty_table ''datetime'' [] =
     empty_table\<lparr>columns := columns empty_table @ [(''datetime'', [])]\<rparr>"
    by (simp add: setitem_def names_def empty_table_def)
  ultimately have "plot_temperature empty_table 24 = Inl IndexError"
    by (simp add: plot_temperature_def Let_def getitem_def getitem_all_def iloc0_def empty_table_def)
  with valid_empty transform_empty show ?thesis by simp
qed

subsection \<open>Missing fields\<close>

lemma well_formed_keys:
  assumes "well_formed d" and "hourly d = Some h" and "hourly_units d = Some u"
  shows "fst ` set (scalars d) = set scalar_fields" and "fst ` set u \<subseteq> fst ` set h"
    and "\<exists>tm. map_of h ''time'' = Some tm"
  using assms by (auto simp: well_formed_def split: option.splits)

lemma missing_label:
  assumes wf: "well_formed d" and h: "hourly d = Some h" and u: "hourly_units d = Some u"
    and absent: "\<And>df tm. flattened d h u (length tm) df \<Longrightarrow> l \<notin> set (names (shaped df tm))"
    and l: "l \<in> set ordered_columns"
  shows "\<exists>df missing. flatten_hourly_data d = Inr df \<and>
           transform_data d = Inl (KeyError missing) \<and> l \<in> set missing"
proof -
  from well_formed_keys(3)[OF wf h u] obtain tm where tm: "map_of h ''time'' = Some tm" by blast
  from flatten_well_formed[OF wf h u tm] obtain df0 where f0: "flatten_hourly_data d = Inr df0"
    by blast
  from transform_well_formed[OF wf h u tm] obtain df
    where fl: "flattened d h u (length tm) df"
      and tr: "transform_data d = getitem_list (shaped df tm) ordered_columns"
    by blast
  let ?missing = "filter (\<lambda>l. l \<notin> set (names (shaped df tm))) ordered_columns"
  from getitem_list_missing[OF l absent[OF fl]] tr
  have "transform_data d = Inl (KeyError ?missing)" by simp
  moreover from l absent[OF fl] have "l \<in> set ?missing" by simp
  ultimately show ?thesis using f0 by blast
qed

lemma not_in_image: "(\<And>k. f k = l \<Longrightarrow> k \<notin> A) \<Longrightarrow> l \<notin> f ` A"
  by auto

lemma names_shaped: "set (names (shaped df tm)) = new_label ` set (names (split_time df tm))"
  by (simp add: shaped_def names_rename)


text \<open>
  Claim C10, amended. For every well-formed document whose \<^verbatim>\<open>hourly_units\<close> mapping lacks
  the key \<^verbatim>\<open>time\<close> and whose \<^verbatim>\<open>hourly\<close> mapping has no field named \<^verbatim>\<open>time_unit\<close>,
  flattening succeeds and \<^verbatim>\<open>transform_data\<close> fails at the projection with a \<^verbatim>\<open>KeyError\<close>
  that names the label \<^verbatim>\<open>time_unit\<close>.
\<close>

theorem missing_time_unit:
  assumes "well_formed d" and "hourly d = Some h" and "hourly_units d = Some u"
    and "''time'' \<notin> fst ` set u" and "''time_unit'' \<notin> fst ` set h"
  shows "\<exists>df missing. flatten_hourly_data d = Inr df \<and>
           transform_data d = Inl (KeyError missing) \<and> ''time_unit'' \<in> set missing"
proof (rule missing_label[OF assms(1,2,3)])
  show "''time_unit'' \<in> set ordered_columns"
    by (simp add: ordered_columns_def)
  fix df and tm :: "scalar list" assume fl: "flattened d h u (length tm) df"
  note ks = well_formed_keys(1)[OF assms(1,2,3)]
  have "k \<notin> set (names (split_time df tm))" if "new_label k = ''time_unit''" for k
  proof -
    from that have k: "k = ''time_unit''"
      by (simp add: new_label_eq split: if_splits)
    from ks have "''time_unit'' \<notin> fst ` set (scalars d)"
      by (simp add: scalar_fields_def)
    moreover have "''time_unit'' \<notin> unit_label ` fst ` set u"
    proof
      assume "''time_unit'' \<in> unit_label ` fst ` set u"
      then obtain j where j: "j \<in> fst ` set u" and "''time_unit'' = unit_label j"
        by (rule imageE)
      then have "j = ''time''" by (simp add: unit_label_def)
      with j assms(4) show False by simp
    qed
    ultimately show ?thesis
      using assms(5) k by (simp add: names_flattened[OF fl])
  qed
  then show "''time_unit'' \<notin> set (names (shaped df tm))"
    unfolding names_shaped by (rule not_in_image)
qed

subsection \<open>Missing fields: witnesses and counterexamples\<close>


lemma well_formed_no_time_unit: "well_formed no_time_unit_response"
  by (simp add: well_formed_def no_time_unit_response_def no_time_unit_hourly_def
      no_time_unit_units_def example_scalars_def scalar_fields_def documented_midnight)



lemma flatten_other_time_unit:
  "flatten_hourly_data other_time_unit_response =
     Inr \<lparr>nrows = 1,
          columns =
            [(''time'', [Value (Str ''2024-01-01T00:00'')]),
             (''temperature_2m'', [Value (Num 11)]),
             (''time_unit'', [Value (Str ''s'')]),
             (''latitude'', [Value (Num 4)]),
             (''longitude'', [Value (Num (- 10))]),
             (''generationtime_ms'', [Value (Num (1 / 2))]),
             (''utc_offset_seconds'', [Value (Num 0)]),
             (''timezone'', [Value (Str ''UTC'')]),
             (''timezone_abbreviation'', [Value (Str ''UTC'')]),
             (''elevation'', [Value (Num 0)]),
             (''temperature_2m_unit'', [Value (Str ''degC'')])]\<rparr>"
  apply (simp add: flatten_hourly_data_def other_time_unit_response_def other_time_unit_hourly_def
      no_time_unit_units_def example_scalars_def DataFrame_def as_column_examples)
  apply (simp add: setitem_scalar_def setitem_def names_def)
  done

lemma well_formed_other_time_unit: "well_formed other_time_unit_response"
  by (simp add: well_formed_def other_time_unit_response_def other_time_unit_hourly_def
      no_time_unit_units_def example_scalars_def scalar_fields_def documented_midnight)





theorem missing_time_unit_witness:
  "well_formed no_time_unit_response \<and>
   hourly no_time_unit_response = Some no_time_unit_hourly \<and>
   hourly_units no_time_unit_response = Some no_time_unit_units \<and>
   ''time'' \<notin> fst ` set no_time_unit_units \<and>
   ''time_unit'' \<notin> fst ` set no_time_unit_hourly \<and>
   (\<exists>df missing. flatten_hourly_data no_time_unit_response = Inr df \<and>
      transform_data no_time_unit_response = Inl (KeyError missing) \<and>
      ''time_unit'' \<in> set missing)"
proof -
  have h: "hourly no_time_unit_response = Some no_time_unit_hourly"
    and u: "hourly_units no_time_unit_response = Some no_time_unit_units"
    by (simp_all add: no_time_unit_response_def)
  have a: "''time'' \<notin> fst ` set no_time_unit_units"
    and b: "''time_unit'' \<notin> fst ` set no_time_unit_hourly"
    by (simp_all add: no_time_unit_units_def no_time_unit_hourly_def)
  from missing_time_unit[OF well_formed_no_time_unit h u a b] well_formed_no_time_unit h u a b
  show ?thesis by blast
qed

theorem missing_time_unit_counterexample:
  "well_formed other_time_unit_response \<and>
   hourly_units other_time_unit_response = Some no_time_unit_units \<and>
   map_of no_time_unit_units ''time'' = None \<and>
   transform_data other_time_unit_response =
     Inr \<lparr>nrows = 1,
          columns =
            [(''time'', [DateCell (Date 2024 1 1)]),
             (''hour'', [TimeCell (Time 0 0 0)]),
             (''temperature'', [Value (Num 11)]),
             (''latitude'', [Value (Num 4)]),
             (''longitude'', [Value (Num (- 10))]),
             (''generationtime_ms'', [Value (Num (1 / 2))]),
             (''utc_offset_seconds'', [Value (Num 0)]),
             (''timezone'', [Value (Str ''UTC'')]),
             (''timezone_abbreviation'', [Value (Str ''UTC'')]),
             (''elevation'', [Value (Num 0)]),
             (''time_unit'', [Value (Str ''s'')]),
             (''temperature_unit'', [Value (Str ''degC'')])]\<rparr>"
  apply (intro conjI)
     apply (rule well_formed_other_time_unit)
    apply (simp add: other_time_unit_response_def)
   apply (simp add: no_time_unit_units_def)
  apply (subst transform_data_split[OF flatten_other_time_unit, where tm = "[Str ''2024-01-01T00:00'']"])
     apply (simp add: names_def)
    apply simp
   apply (simp add: documented_midnight)
  apply (simp add: split_time_def cells_midnight setitem_def names_def)
  apply (simp add: rename_def)
  apply (simp add: getitem_list_def names_def ordered_columns_def)
  done

subsection \<open>The store: what a call changes and what it returns\<close>

lemma preserved_refl: "preserved s s"
  by (simp add: preserved_def)

lemma preserved_append: "preserved s0 s \<Longrightarrow> preserved s0 (s @ [ob])"
  by (auto simp: preserved_def nth_append)

lemma length_mutate [simp]: "length (mutate s r f) = length s"
  by (simp add: mutate_def split: option.splits obj.splits)

lemma nth_mutate_other: "b \<noteq> r \<Longrightarrow> mutate s r f ! b = s ! b"
  by (simp add: mutate_def split: option.splits obj.splits)

lemma preserved_mutate:
  "preserved s0 s \<Longrightarrow> length s0 \<le> r \<Longrightarrow> preserved s0 (mutate s r f)"
  by (auto simp: preserved_def nth_mutate_other)

lemma preserved_foldl_mutate:
  "preserved s0 s \<Longrightarrow> length s0 \<le> r \<Longrightarrow>
   preserved s0 (foldl (\<lambda>s (k, v). mutate s r (g k v)) s kvs)"
  by (induction kvs arbitrary: s) (auto intro: preserved_mutate)

lemma lookup_mutate_other: "b \<noteq> r \<Longrightarrow> lookup (mutate s r f) b = lookup s b"
  by (simp add: lookup_def nth_mutate_other)

lemma lookup_foldl_mutate_other:
  "b \<noteq> r \<Longrightarrow> lookup (foldl (\<lambda>s (k, v). mutate s r (g k v)) s kvs) b = lookup s b"
  by (induction kvs arbitrary: s) (auto simp: lookup_mutate_other)

lemma read_frame_mutate:
  "read_frame s r = Inr t \<Longrightarrow> read_frame (mutate s r f) r = Inr (f t)"
  by (auto simp: read_frame_def mutate_def lookup_def split: option.splits obj.splits if_splits)

lemma read_frame_foldl_mutate:
  "read_frame s r = Inr t \<Longrightarrow>
   read_frame (foldl (\<lambda>s (k, v). mutate s r (g k v)) s kvs) r
   = Inr (foldl (\<lambda>t (k, v). g k v t) t kvs)"
proof (induction kvs arbitrary: s t)
  case Nil
  then show ?case by simp
next
  case (Cons a kvs)
  obtain k v where a: "a = (k, v)" by (cases a)
  from Cons.prems have "read_frame (mutate s r (g k v)) r = Inr (g k v t)"
    by (rule read_frame_mutate)
  from Cons.IH[OF this] a show ?case by simp
qed

lemma lookup_append_old: "lookup s b = Some ob \<Longrightarrow> lookup (s @ [x]) b = Some ob"
  by (auto simp: lookup_def nth_append split: if_splits)

lemma read_frame_new: "read_frame (s @ [Frame t]) (length s) = Inr t"
  by (simp add: read_frame_def lookup_def)

lemma lookup_bound: "lookup s b = Some ob \<Longrightarrow> b < length s"
  by (simp add: lookup_def split: if_splits)

lemma flatten_st_document:
  assumes d: "lookup s data = Some (Document d)"
  shows "flatten_hourly_data_st s data =
     (case hourly d of
        None \<Rightarrow> (Inl (KeyError [''hourly'']), s)
      | Some h \<Rightarrow>
          (case DataFrame h of
             Inl e \<Rightarrow> (Inl e, s)
           | Inr t \<Rightarrow>
               let s2 = foldl (\<lambda>s' (key, value).
                                 mutate s' (length s) (\<lambda>df. setitem_scalar df key value))
                          (s @ [Frame t])
                          (filter (\<lambda>(k, v). k \<notin> set [''hourly'', ''hourly_units'']) (scalars d))
               in (case hourly_units d of
                     None \<Rightarrow> (Inl (KeyError [''hourly_units'']), s2)
                   | Some units \<Rightarrow>
                       (Inr (length s),
                        foldl (\<lambda>s' (key, unit).
                                 mutate s' (length s) (\<lambda>df. setitem_scalar df (key @ ''_unit'') unit))
                          s2 units))))"
proof -
  from lookup_bound[OF d] have ne: "data \<noteq> length s" by simp
  have d1: "lookup (s @ [Frame t]) data = Some (Document d)" for t
    by (rule lookup_append_old[OF d])
  have d2: "lookup (foldl (\<lambda>s' (key, value). mutate s' (length s) (g key value)) (s @ [Frame t]) kvs)
              data = Some (Document d)" for t g kvs
    using lookup_foldl_mutate_other[OF ne, of g "s @ [Frame t]" kvs] d1 by simp
  show ?thesis
    unfolding flatten_hourly_data_st_def new_object_def
    by (simp add: d d1 d2 Let_def split: option.splits sum.splits)
qed

lemma read_frame_mutate_eq:
  "read_frame (mutate s r f) r = map_sum id f (read_frame s r)"
  by (auto simp: read_frame_def mutate_def lookup_def split: option.splits obj.splits if_splits)

lemma read_frame_appended: "n = length s \<Longrightarrow> read_frame (s @ [Frame t]) n = Inr t"
  by (simp add: read_frame_def lookup_def)

lemma flatten_st_refines:
  assumes d: "lookup s data = Some (Document d)"
  shows "outcome (flatten_hourly_data_st s data) = flatten_hourly_data d"
proof (cases "hourly d")
  case None
  then show ?thesis
    by (simp add: flatten_st_document[OF d] flatten_hourly_data_def outcome_def)
next
  case (Some h)
  show ?thesis
  proof (cases "DataFrame h")
    case (Inl e)
    with Some show ?thesis
      by (simp add: flatten_st_document[OF d] flatten_hourly_data_def outcome_def)
  next
    case (Inr t)
    let ?meta = "filter (\<lambda>(k, v). k \<notin> set [''hourly'', ''hourly_units'']) (scalars d)"
    let ?s2 = "foldl (\<lambda>s' (key, value). mutate s' (length s) (\<lambda>df. setitem_scalar df key value))
                 (s @ [Frame t]) ?meta"
    have r2: "read_frame ?s2 (length s)
        = Inr (foldl (\<lambda>df (key, value). setitem_scalar df key value) t ?meta)"
      by (rule read_frame_foldl_mutate[OF read_frame_new])
    show ?thesis
    proof (cases "hourly_units d")
      case None
      with Some Inr show ?thesis
        by (simp add: flatten_st_document[OF d] flatten_hourly_data_def outcome_def Let_def)
    next
      case (Some units)
      have "read_frame
              (foldl (\<lambda>s' (key, unit).
                        mutate s' (length s) (\<lambda>df. setitem_scalar df (key @ ''_unit'') unit))
                 ?s2 units) (length s)
          = Inr (foldl (\<lambda>df (key, unit). setitem_scalar df (key @ ''_unit'') unit)
                   (foldl (\<lambda>df (key, value). setitem_scalar df key value) t ?meta) units)"
        by (rule read_frame_foldl_mutate[OF r2])
      with \<open>hourly d = Some h\<close> Inr Some show ?thesis
        by (simp add: flatten_st_document[OF d] flatten_hourly_data_def outcome_def Let_def)
    qed
  qed
qed

lemma transform_st_refines:
  assumes d: "lookup s data = Some (Document d)"
  shows "outcome (transform_data_st s data) = transform_data d"
proof -
  obtain res s1 where f: "flatten_hourly_data_st s data = (res, s1)"
    by (cases "flatten_hourly_data_st s data")
  from flatten_st_refines[OF d] f have fl: "outcome (res, s1) = flatten_hourly_data d"
    by simp
  show ?thesis
  proof (cases res)
    case (Inl e)
    with fl have "flatten_hourly_data d = Inl e"
      by (simp add: outcome_def)
    with f Inl show ?thesis
      by (simp add: transform_data_st_def transform_data_def outcome_def)
  next
    case (Inr r)
    with fl have rd: "read_frame s1 r = flatten_hourly_data d"
      by (simp add: outcome_def)
    show ?thesis
    proof (cases "flatten_hourly_data d")
      case (Inl e)
      with f Inr rd show ?thesis
        by (simp add: transform_data_st_def transform_data_def outcome_def)
    next
      case t: (Inr t)
      with f Inr rd show ?thesis
        by (simp add: transform_data_st_def transform_data_def outcome_def Let_def new_object_def
            read_frame_mutate_eq read_frame_appended and_then_def split: sum.splits)
    qed
  qed
qed

lemma flatten_st_frame:
  "preserved s (snd (flatten_hourly_data_st s data)) \<and>
   (\<forall>r. fst (flatten_hourly_data_st s data) = Inr r \<longrightarrow> r = length s)"
  unfolding flatten_hourly_data_st_def new_object_def
  by (auto simp: Let_def preserved_refl split: option.splits obj.splits sum.splits
      intro!: preserved_foldl_mutate preserved_append)

lemma transform_st_frame: "preserved s (snd (transform_data_st s data))"
proof -
  obtain res s1 where f: "flatten_hourly_data_st s data = (res, s1)"
    by (cases "flatten_hourly_data_st s data")
  with flatten_st_frame[of s data] have p: "preserved s s1"
    and r: "\<And>r. res = Inr r \<Longrightarrow> r = length s"
    by simp_all
  show ?thesis
  proof (cases res)
    case (Inl e)
    with f p show ?thesis
      by (simp add: transform_data_st_def)
  next
    case (Inr df)
    with r have df: "length s \<le> df" by simp
    note step = preserved_mutate[OF _ df]
    from f Inr p show ?thesis
      unfolding transform_data_st_def new_object_def
      by (auto simp: Let_def split: sum.splits intro!: step preserved_append)
  qed
qed

lemma preserved_lookup: "preserved s s' \<Longrightarrow> lookup s r = Some ob \<Longrightarrow> lookup s' r = Some ob"
  by (auto simp: preserved_def lookup_def split: if_splits)

text \<open>
  Claim C9. Whatever the store and whatever happens in the call, the document behind the
  reference handed to \<^verbatim>\<open>flatten_hourly_data\<close> or \<^verbatim>\<open>transform_data\<close> is the same after the
  call as before, with its top-level mapping, both nested mappings and their arrays; so
  is every other object that existed before the call. All reshaping happens in frames
  created during the call.
\<close>

theorem input_unchanged:
  assumes "lookup s data = Some (Document d)"
  shows "lookup (snd (flatten_hourly_data_st s data)) data = Some (Document d) \<and>
         lookup (snd (transform_data_st s data)) data = Some (Document d) \<and>
         preserved s (snd (flatten_hourly_data_st s data)) \<and>
         preserved s (snd (transform_data_st s data))"
proof -
  from flatten_st_frame[of s data] have f: "preserved s (snd (flatten_hourly_data_st s data))"
    by simp
  note t = transform_st_frame[of s data]
  from preserved_lookup[OF f assms] preserved_lookup[OF t assms] f t show ?thesis
    by simp
qed

theorem input_unchanged_witness:
  "lookup [Frame empty_table, Document example_response] 1 = Some (Document example_response) \<and>
   lookup (snd (transform_data_st [Frame empty_table, Document example_response] 1)) 1
     = Some (Document example_response) \<and>
   snd (transform_data_st [Frame empty_table, Document example_response] 1) ! 0 = Frame empty_table"
proof -
  have l: "lookup [Frame empty_table, Document example_response] 1 = Some (Document example_response)"
    by (simp add: lookup_def)
  from input_unchanged[OF l] l show ?thesis
    by (simp add: preserved_def)
qed

text \<open>
  Claim C8. The table (or the exception) a call of \<^verbatim>\<open>transform_data\<close> leaves with the
  caller is determined by the document alone: two calls on equal documents, in whatever
  stores and behind whatever references, give equal outcomes, namely the value of the
  function \<open>transform_data\<close> at the document.
\<close>

theorem transform_data_deterministic:
  assumes "lookup s1 r1 = Some (Document d)" and "lookup s2 r2 = Some (Document d)"
  shows "outcome (transform_data_st s1 r1) = outcome (transform_data_st s2 r2) \<and>
         outcome (transform_data_st s1 r1) = transform_data d"
  using transform_st_refines[OF assms(1)] transform_st_refines[OF assms(2)] by simp

theorem transform_data_deterministic_witness:
  "lookup [Document example_response] 0 = Some (Document example_response) \<and>
   lookup [Frame empty_table, Document example_response] 1 = Some (Document example_response) \<and>
   outcome (transform_data_st [Document example_response] 0)
     = outcome (transform_data_st [Frame empty_table, Document example_response] 1) \<and>
   outcome (transform_data_st [Document example_response] 0) = transform_data example_response"
proof -
  have a: "lookup [Document example_response] 0 = Some (Document example_response)"
    and b: "lookup [Frame empty_table, Document example_response] 1 = Some (Document example_response)"
    by (simp_all add: lookup_def)
  show ?thesis
    by (rule conjI[OF a conjI[OF b transform_data_deterministic[OF a b]]])
qed

end
